theory Spec2Isabelle
  imports Complex_Main "HOL-Library.List_Lexorder" "HOL-Library.Char_ord"
begin

section \<open>JavaScript values as the bridge plugin sees them\<close>

text \<open>
  The plugin \<^verbatim>\<open>obsidian-bases-bridge\<close> (its source file main.ts) works on loosely typed
  JSON/YAML data.
  A number is a finite value, \<^verbatim>\<open>NaN\<close> or one of the infinities. Finite values are kept
  as rationals: the code only compares, truncates and formats numbers, and every
  finite double is a rational. Strings are lists of code units restricted to the
  range 0..255.
\<close>

datatype jsnum = Fin rat | NaN | PInf | NInf

datatype jsval =
    VUndef
  | VNull
  | VBool bool
  | VNum jsnum
  | VStr string
  | VArr "jsval list"
  | VObj "(string \<times> jsval) list"

text \<open>
  What the JavaScript runtime and the Obsidian host supply and the repository does not
  define: the rounding of a decimal literal that is not a small integer to a double,
  the digits \<^verbatim>\<open>Number.prototype.toString\<close> prints for a finite number that is not a
  small integer, the collation of \<^verbatim>\<open>String.prototype.localeCompare\<close>, and
  \<^verbatim>\<open>decodeURIComponent\<close> (\<open>None\<close> when it throws). They are parameters of the model.
\<close>

record host =
  roundDouble :: "rat \<Rightarrow> jsnum"
  formatNum :: "rat \<Rightarrow> string"
  localeCompare :: "string \<Rightarrow> string \<Rightarrow> int"
  decodeURIComponent :: "string \<Rightarrow> string option"

definition isInteger :: "rat \<Rightarrow> bool" where
  "isInteger q = (of_int \<lfloor>q\<rfloor> = q)"

definition isFinite :: "jsnum \<Rightarrow> bool" where
  "isFinite n = (case n of Fin _ \<Rightarrow> True | _ \<Rightarrow> False)"

text \<open>\<^verbatim>\<open>Math.trunc\<close> on a finite number: rounding towards zero.\<close>

definition truncInt :: "rat \<Rightarrow> int" where
  "truncInt q = (if 0 \<le> q then \<lfloor>q\<rfloor> else \<lceil>q\<rceil>)"

text \<open>The relational operators of JavaScript on numbers; \<^verbatim>\<open>NaN\<close> compares false.\<close>

fun numLess :: "jsnum \<Rightarrow> jsnum \<Rightarrow> bool" where
  "numLess NaN _ = False"
| "numLess _ NaN = False"
| "numLess (Fin a) (Fin b) = (a < b)"
| "numLess NInf NInf = False"
| "numLess NInf _ = True"
| "numLess _ NInf = False"
| "numLess PInf _ = False"
| "numLess _ PInf = True"

definition numEq :: "jsnum \<Rightarrow> jsnum \<Rightarrow> bool" where
  "numEq a b = (a \<noteq> NaN \<and> a = b)"

definition numLessEq :: "jsnum \<Rightarrow> jsnum \<Rightarrow> bool" where
  "numLessEq a b = (numLess a b \<or> numEq a b)"

text \<open>Truthiness of a number (\<^verbatim>\<open>expected && ...\<close>): everything but 0 and \<^verbatim>\<open>NaN\<close>.\<close>

definition numTruthy :: "jsnum \<Rightarrow> bool" where
  "numTruthy n = (n \<noteq> Fin 0 \<and> n \<noteq> NaN)"

subsection \<open>Strings\<close>

definition isSpace :: "char \<Rightarrow> bool" where
  "isSpace c = (c \<in> set [CHR 0x09, CHR 0x0A, CHR 0x0B, CHR 0x0C, CHR 0x0D, CHR 0x20, CHR 0xA0])"

definition isLineTerminator :: "char \<Rightarrow> bool" where
  "isLineTerminator c = (c = CHR 0x0A \<or> c = CHR 0x0D)"

definition trim :: "string \<Rightarrow> string" where
  "trim s = rev (dropWhile isSpace (rev (dropWhile isSpace s)))"

definition startsWith :: "string \<Rightarrow> string \<Rightarrow> bool" where
  "startsWith s p = (take (length p) s = p)"

definition endsWith :: "string \<Rightarrow> string \<Rightarrow> bool" where
  "endsWith s p = (length p \<le> length s \<and> drop (length s - length p) s = p)"

fun strIncludes :: "string \<Rightarrow> string \<Rightarrow> bool" where
  "strIncludes [] p = (p = [])"
| "strIncludes (c # cs) p = (startsWith (c # cs) p \<or> strIncludes cs p)"

fun joinWith :: "string \<Rightarrow> string list \<Rightarrow> string" where
  "joinWith sep [] = []"
| "joinWith sep [x] = x"
| "joinWith sep (x # y # ys) = x @ sep @ joinWith sep (y # ys)"

definition isDigit :: "char \<Rightarrow> bool" where
  "isDigit c = (c \<in> set ''0123456789'')"

definition digitVal :: "char \<Rightarrow> nat" where
  "digitVal c = (of_char c) - 48"

definition digitsVal :: "string \<Rightarrow> nat" where
  "digitsVal ds = foldl (\<lambda>a c. 10 * a + digitVal c) 0 ds"

fun natDigits :: "nat \<Rightarrow> string" where
  "natDigits n = (if n < 10 then [''0123456789'' ! n] else natDigits (n div 10) @ [''0123456789'' ! (n mod 10)])"

declare natDigits.simps [simp del]

subsection \<open>\<^verbatim>\<open>String(x)\<close> and \<^verbatim>\<open>Number(x)\<close>\<close>

definition numToString :: "host \<Rightarrow> jsnum \<Rightarrow> string" where
  "numToString h n =
     (case n of
        NaN \<Rightarrow> ''NaN''
      | PInf \<Rightarrow> ''Infinity''
      | NInf \<Rightarrow> ''-Infinity''
      | Fin q \<Rightarrow>
          if isInteger q \<and> \<bar>q\<bar> < 10 ^ 21
          then (if q < 0 then ''-'' else []) @ natDigits (nat \<bar>\<lfloor>q\<rfloor>\<bar>)
          else formatNum h q)"

fun jsString :: "host \<Rightarrow> jsval \<Rightarrow> string" where
  "jsString h VUndef = ''undefined''"
| "jsString h VNull = ''null''"
| "jsString h (VBool b) = (if b then ''true'' else ''false'')"
| "jsString h (VNum n) = numToString h n"
| "jsString h (VStr s) = s"
| "jsString h (VArr xs) =
     joinWith '','' (map (\<lambda>x. if x = VUndef \<or> x = VNull then [] else jsString h x) xs)"
| "jsString h (VObj kvs) = ''[object Object]''"

text \<open>A double that is a small integer is that integer; anything else is rounded by the host.\<close>

definition toDouble :: "host \<Rightarrow> rat \<Rightarrow> jsnum" where
  "toDouble h q = (if isInteger q \<and> \<bar>q\<bar> \<le> 2 ^ 53 then Fin q else roundDouble h q)"

definition isHexDigit :: "char \<Rightarrow> bool" where
  "isHexDigit c = (c \<in> set ''0123456789abcdefABCDEF'')"

definition hexVal :: "char \<Rightarrow> nat" where
  "hexVal c = (if isDigit c then digitVal c
               else if c \<in> set ''abcdef'' then of_char c - 87 else of_char c - 55)"

text \<open>\<^verbatim>\<open>0x\<close>, \<^verbatim>\<open>0o\<close> and \<^verbatim>\<open>0b\<close> integer literals of the StringNumericLiteral grammar.\<close>

definition parseRadix :: "string \<Rightarrow> nat option" where
  "parseRadix t =
     (case t of
        z # x # ds \<Rightarrow>
          if z \<noteq> CHR ''0'' \<or> ds = [] then None
          else if x \<in> set ''xX'' \<and> list_all isHexDigit ds
            then Some (foldl (\<lambda>a c. 16 * a + hexVal c) 0 ds)
          else if x \<in> set ''oO'' \<and> list_all (\<lambda>c. c \<in> set ''01234567'') ds
            then Some (foldl (\<lambda>a c. 8 * a + digitVal c) 0 ds)
          else if x \<in> set ''bB'' \<and> list_all (\<lambda>c. c \<in> set ''01'') ds
            then Some (foldl (\<lambda>a c. 2 * a + digitVal c) 0 ds)
          else None
      | _ \<Rightarrow> None)"

text \<open>The exponent part \<^verbatim>\<open>[eE][+-]?digits\<close>; the empty rest is exponent 0.\<close>

definition parseExponent :: "string \<Rightarrow> int option" where
  "parseExponent r =
     (case r of
        [] \<Rightarrow> Some 0
      | e # r1 \<Rightarrow>
          if e \<notin> set ''eE'' then None
          else (let neg = (r1 \<noteq> [] \<and> hd r1 = CHR ''-'');
                    ds = (if r1 \<noteq> [] \<and> hd r1 \<in> set ''+-'' then tl r1 else r1)
                in if ds \<noteq> [] \<and> list_all isDigit ds
                   then Some (if neg then - int (digitsVal ds) else int (digitsVal ds))
                   else None))"

text \<open>A signed decimal literal: \<^verbatim>\<open>5\<close>, \<^verbatim>\<open>5.\<close>, \<^verbatim>\<open>.5\<close>, \<^verbatim>\<open>-5.25e3\<close>; its exact value.\<close>

definition parseDecimal :: "string \<Rightarrow> rat option" where
  "parseDecimal t =
     (let neg = (t \<noteq> [] \<and> hd t = CHR ''-'');
          r1 = (if t \<noteq> [] \<and> hd t \<in> set ''+-'' then tl t else t);
          ip = takeWhile isDigit r1;
          r2 = dropWhile isDigit r1;
          dot = (r2 \<noteq> [] \<and> hd r2 = CHR ''.'');
          fp = (if dot then takeWhile isDigit (tl r2) else []);
          r3 = (if dot then dropWhile isDigit (tl r2) else r2)
      in if ip = [] \<and> fp = [] then None
         else (case parseExponent r3 of
                 None \<Rightarrow> None
               | Some e \<Rightarrow>
                   (let m = of_nat (digitsVal ip) + of_nat (digitsVal fp) / 10 ^ length fp;
                        v = (if 0 \<le> e then m * 10 ^ nat e else m / 10 ^ nat (- e))
                    in Some (if neg then - v else v))))"

definition stringToNumber :: "host \<Rightarrow> string \<Rightarrow> jsnum" where
  "stringToNumber h s =
     (let t = trim s
      in if t = [] then Fin 0
         else if t = ''Infinity'' \<or> t = ''+Infinity'' then PInf
         else if t = ''-Infinity'' then NInf
         else (case parseRadix t of
                 Some n \<Rightarrow> toDouble h (of_nat n)
               | None \<Rightarrow>
                   (case parseDecimal t of
                      Some q \<Rightarrow> toDouble h q
                    | None \<Rightarrow> NaN)))"

text \<open>\<^verbatim>\<open>Number(x)\<close>: arrays and plain objects go through their string form.\<close>

definition toNumber :: "host \<Rightarrow> jsval \<Rightarrow> jsnum" where
  "toNumber h v =
     (case v of
        VUndef \<Rightarrow> NaN
      | VNull \<Rightarrow> Fin 0
      | VBool b \<Rightarrow> Fin (if b then 1 else 0)
      | VNum n \<Rightarrow> n
      | VStr s \<Rightarrow> stringToNumber h s
      | _ \<Rightarrow> stringToNumber h (jsString h v))"

text \<open>\<^verbatim>\<open>a ?? b\<close>\<close>

definition nullish :: "jsval \<Rightarrow> bool" where
  "nullish v = (v = VUndef \<or> v = VNull)"

definition coalesce :: "jsval \<Rightarrow> jsval \<Rightarrow> jsval" where
  "coalesce a b = (if nullish a then b else a)"

text \<open>Property lookup \<^verbatim>\<open>obj[key]\<close> on a plain data object: own properties only.\<close>

definition objGet :: "(string \<times> jsval) list \<Rightarrow> string \<Rightarrow> jsval" where
  "objGet kvs k = (case map_of kvs k of None \<Rightarrow> VUndef | Some v \<Rightarrow> v)"

text \<open>
  \<^verbatim>\<open>Array.prototype.slice(start, end)\<close> with integer arguments: negative indices count
  from the end, both are clamped to the array.
\<close>

definition jsSlice :: "'a list \<Rightarrow> int \<Rightarrow> int \<Rightarrow> 'a list" where
  "jsSlice xs s e =
     (let len = int (length xs);
          k = (if s < 0 then max (len + s) 0 else min s len);
          f = (if e < 0 then max (len + e) 0 else min e len)
      in take (nat (f - k)) (drop (nat k) xs))"

section \<open>Helpers of main.ts\<close>

text \<open>
  \<^verbatim>\<open>
  function clampInt(value: unknown, fallback: number, min: number, max: number): number {
    const num = Number(value);
    if (!Number.isFinite(num)) return fallback;
    return Math.max(min, Math.min(max, Math.trunc(num)));
  }
  \<close>
  Every call site passes integer constants for \<open>fallback\<close>, \<open>min\<close> and \<open>max\<close>.
\<close>

definition clampInt :: "host \<Rightarrow> jsval \<Rightarrow> int \<Rightarrow> int \<Rightarrow> int \<Rightarrow> int" where
  "clampInt h v fallback mn mx =
     (case toNumber h v of
        Fin q \<Rightarrow> max mn (min mx (truncInt q))
      | _ \<Rightarrow> fallback)"


text \<open>
  \<^verbatim>\<open>
  function stripQuotes(value: string): string {
    const trimmed = value.trim();
    if ((trimmed.startsWith("\"") && trimmed.endsWith("\"")) ||
        (trimmed.startsWith("'") && trimmed.endsWith("'"))) {
      return trimmed.slice(1, -1);
    }
    return trimmed;
  }
  \<close>
\<close>

definition stripQuotes :: "string \<Rightarrow> string" where
  "stripQuotes v =
     (let trimmed = trim v
      in if (startsWith trimmed [CHR 0x22] \<and> endsWith trimmed [CHR 0x22]) \<or>
            (startsWith trimmed [CHR 0x27] \<and> endsWith trimmed [CHR 0x27])
         then jsSlice trimmed 1 (- 1)
         else trimmed)"

text \<open>
  The loop of \<^verbatim>\<open>splitOutsideQuotes\<close>: \<open>prev\<close> is \<^verbatim>\<open>input[i - 1]\<close> (nothing at \<open>i = 0\<close>),
  the two flags are \<^verbatim>\<open>inSingle\<close> and \<^verbatim>\<open>inDouble\<close>, \<open>cur\<close> is \<^verbatim>\<open>current\<close>; the result is
  \<^verbatim>\<open>parts\<close> with the last \<^verbatim>\<open>current\<close> pushed. After a needle the index jumps behind it,
  so the next \<^verbatim>\<open>prev\<close> is the needle's last character.
\<close>

fun splitLoop ::
  "string \<Rightarrow> char option \<Rightarrow> bool \<Rightarrow> bool \<Rightarrow> string \<Rightarrow> string \<Rightarrow> string list" where
  "splitLoop needle prev inSingle inDouble cur [] = [cur]"
| "splitLoop needle prev inSingle inDouble cur (ch # rest) =
     (let inSingle' = (if ch = CHR 0x27 \<and> \<not> inDouble \<and> prev \<noteq> Some (CHR 0x5C)
                       then \<not> inSingle else inSingle);
          inDouble' = (if ch = CHR 0x22 \<and> \<not> inSingle' \<and> prev \<noteq> Some (CHR 0x5C)
                       then \<not> inDouble else inDouble)
      in if \<not> inSingle' \<and> \<not> inDouble' \<and> startsWith (ch # rest) needle
         then cur # splitLoop needle (Some (last (ch # needle))) inSingle' inDouble' []
                      (drop (length needle - 1) rest)
         else splitLoop needle (Some ch) inSingle' inDouble' (cur @ [ch]) rest)"

text \<open>\<^verbatim>\<open>return parts.map((p) => p.trim()).filter((p) => p.length > 0);\<close>\<close>

definition splitOutsideQuotes :: "string \<Rightarrow> string \<Rightarrow> string list" where
  "splitOutsideQuotes input needle =
     filter (\<lambda>p. p \<noteq> []) (map trim (splitLoop needle None False False [] input))"

text \<open>
  \<^verbatim>\<open>
  function parseStringListLiteral(inner: string): string[] {
    const parts = splitOutsideQuotes(inner, ",");
    const values: string[] = [];
    for (const part of parts) { const v = stripQuotes(part.trim()); if (v) values.push(v); }
    return values;
  }
  \<close>
\<close>

definition parseStringListLiteral :: "string \<Rightarrow> string list" where
  "parseStringListLiteral inner =
     filter (\<lambda>v. v \<noteq> []) (map (\<lambda>part. stripQuotes (trim part)) (splitOutsideQuotes inner '',''))"

text \<open>
  The loop of \<^verbatim>\<open>splitTopLevelCommas\<close>: a quote character toggles its flag and is kept;
  outside quotes parentheses move \<^verbatim>\<open>depth\<close> and a comma at depth 0 closes the part.
\<close>

fun commaLoop ::
  "char option \<Rightarrow> nat \<Rightarrow> bool \<Rightarrow> bool \<Rightarrow> string \<Rightarrow> string \<Rightarrow> string list" where
  "commaLoop prev depth inSingle inDouble cur [] = [cur]"
| "commaLoop prev depth inSingle inDouble cur (ch # rest) =
     (if ch = CHR 0x27 \<and> \<not> inDouble \<and> prev \<noteq> Some (CHR 0x5C)
        then commaLoop (Some ch) depth (\<not> inSingle) inDouble (cur @ [ch]) rest
      else if ch = CHR 0x22 \<and> \<not> inSingle \<and> prev \<noteq> Some (CHR 0x5C)
        then commaLoop (Some ch) depth inSingle (\<not> inDouble) (cur @ [ch]) rest
      else if \<not> inSingle \<and> \<not> inDouble \<and> ch = CHR ''(''
        then commaLoop (Some ch) (depth + 1) inSingle inDouble (cur @ [ch]) rest
      else if \<not> inSingle \<and> \<not> inDouble \<and> ch = CHR '')''
        then commaLoop (Some ch) (depth - 1) inSingle inDouble (cur @ [ch]) rest
      else if \<not> inSingle \<and> \<not> inDouble \<and> ch = CHR '','' \<and> depth = 0
        then cur # commaLoop (Some ch) depth inSingle inDouble [] rest
      else commaLoop (Some ch) depth inSingle inDouble (cur @ [ch]) rest)"

definition splitTopLevelCommas :: "string \<Rightarrow> string list" where
  "splitTopLevelCommas input = commaLoop None 0 False False [] input"

text \<open>
  \<^verbatim>\<open>
  function dirname(path: string): string {
    const normalized = path.replace(/\\/g, "/");
    const idx = normalized.lastIndexOf("/");
    return idx === -1 ? "" : normalized.slice(0, idx);
  }
  \<close>
\<close>

definition backslashesToSlashes :: "string \<Rightarrow> string" where
  "backslashesToSlashes s = map (\<lambda>c. if c = CHR 0x5C then CHR ''/'' else c) s"

definition dirname :: "string \<Rightarrow> string" where
  "dirname p =
     (let normalized = backslashesToSlashes p
      in if CHR ''/'' \<in> set normalized
         then rev (tl (dropWhile (\<lambda>c. c \<noteq> CHR ''/'') (rev normalized)))
         else [])"

text \<open>\<^verbatim>\<open>s.replace(/\/+$/g, "")\<close>, \<^verbatim>\<open>s.replace(/^#/, "")\<close> and \<^verbatim>\<open>s.replace(/\.md$/i, "")\<close>.\<close>

definition stripTrailingSlashes :: "string \<Rightarrow> string" where
  "stripTrailingSlashes s = rev (dropWhile (\<lambda>c. c = CHR ''/'') (rev s))"

definition stripLeadingHash :: "string \<Rightarrow> string" where
  "stripLeadingHash s = (if startsWith s ''#'' then tl s else s)"

definition lowerAscii :: "char \<Rightarrow> char" where
  "lowerAscii c =
     (case map_of (zip ''ABCDEFGHIJKLMNOPQRSTUVWXYZ'' ''abcdefghijklmnopqrstuvwxyz'') c of
        Some l \<Rightarrow> l
      | None \<Rightarrow> c)"

definition stripMdSuffix :: "string \<Rightarrow> string" where
  "stripMdSuffix s =
     (if 3 \<le> length s \<and> map lowerAscii (drop (length s - 3) s) = ''.md''
      then take (length s - 3) s else s)"

subsection \<open>Regular expressions\<close>

text \<open>
  The regular expressions of main.ts are built from literals, single-character classes
  under a greedy or lazy quantifier, capture groups, alternatives and the end anchor;
  all of them start with \<^verbatim>\<open>^\<close>, so a match is tried at the first character only. The
  matcher backtracks in the order ECMAScript prescribes (an alternative left to right,
  a greedy quantifier from the longest run, a lazy one from the shortest) and returns
  the captures of the first match found.
\<close>

datatype rx =
    Lit string
  | LitI string
  | Cls "char \<Rightarrow> bool"
  | Star "char \<Rightarrow> bool"
  | Plus "char \<Rightarrow> bool"
  | LazyStar "char \<Rightarrow> bool"
  | Opt rx
  | Grp rx
  | Alt rx rx
  | Cat rx rx
  | End

fun greedyStar :: "(char \<Rightarrow> bool) \<Rightarrow> string \<Rightarrow> (string \<Rightarrow> 'a option) \<Rightarrow> 'a option" where
  "greedyStar p [] k = k []"
| "greedyStar p (c # r) k =
     (if p c then (case greedyStar p r k of Some x \<Rightarrow> Some x | None \<Rightarrow> k (c # r))
      else k (c # r))"

fun lazyStar :: "(char \<Rightarrow> bool) \<Rightarrow> string \<Rightarrow> (string \<Rightarrow> 'a option) \<Rightarrow> 'a option" where
  "lazyStar p [] k = k []"
| "lazyStar p (c # r) k =
     (case k (c # r) of Some x \<Rightarrow> Some x | None \<Rightarrow> if p c then lazyStar p r k else None)"

fun rxm ::
  "rx \<Rightarrow> string \<Rightarrow> string list \<Rightarrow> (string \<Rightarrow> string list \<Rightarrow> string list option) \<Rightarrow>
   string list option" where
  "rxm (Lit l) s cs k = (if startsWith s l then k (drop (length l) s) cs else None)"
| "rxm (LitI l) s cs k =
     (if length l \<le> length s \<and> map lowerAscii (take (length l) s) = map lowerAscii l
      then k (drop (length l) s) cs else None)"
| "rxm (Cls p) s cs k = (case s of [] \<Rightarrow> None | c # r \<Rightarrow> if p c then k r cs else None)"
| "rxm (Star p) s cs k = greedyStar p s (\<lambda>s'. k s' cs)"
| "rxm (Plus p) s cs k =
     (case s of [] \<Rightarrow> None | c # r \<Rightarrow> if p c then greedyStar p r (\<lambda>s'. k s' cs) else None)"
| "rxm (LazyStar p) s cs k = lazyStar p s (\<lambda>s'. k s' cs)"
| "rxm (Opt a) s cs k = (case rxm a s cs k of Some x \<Rightarrow> Some x | None \<Rightarrow> k s cs)"
| "rxm (Grp a) s cs k = rxm a s cs (\<lambda>s' cs'. k s' (cs' @ [take (length s - length s') s]))"
| "rxm (Alt a b) s cs k = (case rxm a s cs k of Some x \<Rightarrow> Some x | None \<Rightarrow> rxm b s cs k)"
| "rxm (Cat a b) s cs k = rxm a s cs (\<lambda>s' cs'. rxm b s' cs' k)"
| "rxm End s cs k = (if s = [] then k s cs else None)"

text \<open>A match with exactly one, two or three captures.\<close>

definition cap1 :: "string list option \<Rightarrow> string option" where
  "cap1 m = (case m of Some [a] \<Rightarrow> Some a | _ \<Rightarrow> None)"

definition cap2 :: "string list option \<Rightarrow> (string \<times> string) option" where
  "cap2 m = (case m of Some [a, b] \<Rightarrow> Some (a, b) | _ \<Rightarrow> None)"

definition cap3 :: "string list option \<Rightarrow> (string \<times> string \<times> string) option" where
  "cap3 m = (case m of Some [a, b, c] \<Rightarrow> Some (a, b, c) | _ \<Rightarrow> None)"

text \<open>\<^verbatim>\<open>s.match(re)\<close>: the captures, or nothing; \<^verbatim>\<open>re.test(s)\<close>.\<close>

definition rxMatch :: "rx \<Rightarrow> string \<Rightarrow> string list option" where
  "rxMatch r s = rxm r s [] (\<lambda>s' cs. Some cs)"

definition rxTest :: "rx \<Rightarrow> string \<Rightarrow> bool" where
  "rxTest r s = (rxMatch r s \<noteq> None)"

fun cat :: "rx list \<Rightarrow> rx" where
  "cat [] = End"
| "cat (r # rs) = Cat r (cat rs)"

text \<open>
  Character classes. The dot without the \<^verbatim>\<open>s\<close> flag matches no line terminator; with
  it, every character. \<^verbatim>\<open>[\p{L}\p{N}_-]\<close> is spelled out for the code units 0..255.
\<close>

definition dot :: "char \<Rightarrow> bool" where
  "dot c = (\<not> isLineTerminator c)"

definition dotAll :: "char \<Rightarrow> bool" where
  "dotAll c = True"

definition notCloseParen :: "char \<Rightarrow> bool" where
  "notCloseParen c = (c \<noteq> CHR '')'')"

definition isLetter :: "char \<Rightarrow> bool" where
  "isLetter c =
     (let n = (of_char c :: nat)
      in (65 \<le> n \<and> n \<le> 90) \<or> (97 \<le> n \<and> n \<le> 122) \<or> n = 170 \<or> n = 181 \<or> n = 186 \<or>
         (192 \<le> n \<and> n \<le> 214) \<or> (216 \<le> n \<and> n \<le> 246) \<or> (248 \<le> n \<and> n \<le> 255))"

definition isNumberChar :: "char \<Rightarrow> bool" where
  "isNumberChar c =
     (let n = (of_char c :: nat)
      in (48 \<le> n \<and> n \<le> 57) \<or> n = 178 \<or> n = 179 \<or> n = 185 \<or> (188 \<le> n \<and> n \<le> 190))"

definition isRefChar :: "char \<Rightarrow> bool" where
  "isRefChar c = (isLetter c \<or> isNumberChar c \<or> c = CHR ''_'' \<or> c = CHR ''-'')"

text \<open>The expressions of \<^verbatim>\<open>evalFormulaExpression\<close>, in the order they are tried.\<close>

definition numberRx :: rx where
  \<comment> \<open>\<^verbatim>\<open>/^-?\d+(?:\.\d+)?$/\<close>\<close>
  "numberRx = cat [Opt (Lit ''-''), Plus isDigit, Opt (Cat (Lit ''.'') (Plus isDigit))]"

definition identRx :: rx where
  \<comment> \<open>\<^verbatim>\<open>/^[\p{L}\p{N}_-]+$/u\<close>\<close>
  "identRx = cat [Plus isRefChar]"

definition joinListRx :: rx where
  \<comment> \<open>\<^verbatim>\<open>/^join\s*\(\s*list\s*\(\s*([^\)]+)\s*\)\s*\)\s*$/s\<close>\<close>
  "joinListRx =
     cat [Lit ''join'', Star isSpace, Lit ''('', Star isSpace, Lit ''list'', Star isSpace, Lit ''('',
          Star isSpace, Grp (Plus notCloseParen), Star isSpace, Lit '')'', Star isSpace, Lit '')'',
          Star isSpace]"

definition listRx :: rx where
  \<comment> \<open>\<^verbatim>\<open>/^list\s*\(\s*([^\)]+)\s*\)\s*$/s\<close>\<close>
  "listRx =
     cat [Lit ''list'', Star isSpace, Lit ''('', Star isSpace, Grp (Plus notCloseParen),
          Star isSpace, Lit '')'', Star isSpace]"

definition ifRx :: rx where
  \<comment> \<open>\<^verbatim>\<open>/^if\((.*)\)$/s\<close>\<close>
  "ifRx = cat [Lit ''if('', Grp (Star dotAll), Lit '')'']"

text \<open>The expressions of \<^verbatim>\<open>evaluateStatement\<close>, in the order they are tried.\<close>

definition callRx :: "string \<Rightarrow> rx" where
  \<comment> \<open>\<^verbatim>\<open>/^NAME\((.+)\)$/\<close> for a fixed name such as \<^verbatim>\<open>file\.hasTag\<close>\<close>
  "callRx name = cat [Lit (name @ ''(''), Grp (Plus dot), Lit '')'']"

definition listContainsRx :: rx where
  \<comment> \<open>\<^verbatim>\<open>/^\[(.*)\]\.contains\((.*)\)$/s\<close>\<close>
  "listContainsRx = cat [Lit ''['', Grp (Star dotAll), Lit ''].contains('', Grp (Star dotAll), Lit '')'']"

definition listPropContainsLinkRx :: rx where
  \<comment> \<open>\<^verbatim>\<open>/^list\(([\p{L}\p{N}_-]+)\)\.contains\(link\((.+)\)\)$/u\<close>\<close>
  "listPropContainsLinkRx =
     cat [Lit ''list('', Grp (Plus isRefChar), Lit '').contains(link('', Grp (Plus dot), Lit ''))'']"

definition propContainsLinkRx :: rx where
  \<comment> \<open>\<^verbatim>\<open>/^([\p{L}\p{N}_-]+)\.contains\(link\((.+)\)\)$/u\<close>\<close>
  "propContainsLinkRx =
     cat [Grp (Plus isRefChar), Lit ''.contains(link('', Grp (Plus dot), Lit ''))'']"

definition fileFieldOpRx :: rx where
  \<comment> \<open>\<^verbatim>\<open>/^file\.(path|name|folder|ext)\.(contains|startsWith)\((.+)\)$/\<close>\<close>
  "fileFieldOpRx =
     cat [Lit ''file.'',
          Grp (Alt (Lit ''path'') (Alt (Lit ''name'') (Alt (Lit ''folder'') (Lit ''ext'')))),
          Lit ''.'', Grp (Alt (Lit ''contains'') (Lit ''startsWith'')), Lit ''('', Grp (Plus dot),
          Lit '')'']"

definition opRx :: rx where
  \<comment> \<open>\<^verbatim>\<open>/^(.*?)\s*(==|=|!=|>=|<=|>|<)\s*(.*?)\s*$/\<close>\<close>
  "opRx =
     cat [Grp (LazyStar dot), Star isSpace,
          Grp (Alt (Lit ''=='') (Alt (Lit ''='') (Alt (Lit ''!='') (Alt (Lit ''>='')
                 (Alt (Lit ''<='') (Alt (Lit ''>'') (Lit ''<''))))))),
          Star isSpace, Grp (LazyStar dot), Star isSpace]"

definition boolRx :: rx where
  \<comment> \<open>\<^verbatim>\<open>/^(true|false)$/i\<close>\<close>
  "boolRx = cat [Grp (Alt (LitI ''true'') (LitI ''false''))]"

definition trueRx :: rx where
  \<comment> \<open>\<^verbatim>\<open>/^true$/i\<close>\<close>
  "trueRx = cat [LitI ''true'']"

definition numberRx2 :: rx where
  \<comment> \<open>\<^verbatim>\<open>/^-?\d+(\.\d+)?$/\<close>\<close>
  "numberRx2 = cat [Opt (Lit ''-''), Plus isDigit, Opt (Grp (Cat (Lit ''.'') (Plus isDigit)))]"

text \<open>Ordinary JavaScript truthiness (\<^verbatim>\<open>!!x\<close>, \<^verbatim>\<open>if (x)\<close>, \<^verbatim>\<open>.filter(Boolean)\<close>).\<close>

definition jsTruthy :: "jsval \<Rightarrow> bool" where
  "jsTruthy v =
     (case v of
        VUndef \<Rightarrow> False
      | VNull \<Rightarrow> False
      | VBool b \<Rightarrow> b
      | VNum n \<Rightarrow> numTruthy n
      | VStr s \<Rightarrow> s \<noteq> []
      | _ \<Rightarrow> True)"

text \<open>
  \<^verbatim>\<open>
  function normBaseId(id: string): string {
    if (!id) return "";
    try { id = decodeURIComponent(id); } catch {}
    return id.replace(/\\/g, "/");
  }
  \<close>
\<close>

definition normBaseId :: "host \<Rightarrow> string \<Rightarrow> string" where
  "normBaseId h ident =
     (if ident = [] then []
      else map (\<lambda>c. if c = CHR 0x5C then CHR ''/'' else c)
             (case decodeURIComponent h ident of None \<Rightarrow> ident | Some d \<Rightarrow> d))"

section \<open>Notes, views and requests\<close>

text \<open>
  A \<^verbatim>\<open>TFile\<close> with the part of the metadata cache the plugin reads: the cached
  frontmatter, and the \<^verbatim>\<open>tag\<close> and \<^verbatim>\<open>link\<close> fields of the cached tag and link entries.
\<close>

record TFile =
  path :: string
  basename :: string
  extension :: string
  stat_size :: jsnum
  stat_ctime :: jsnum
  stat_mtime :: jsnum
  cache_frontmatter :: jsval
  cache_tags :: "jsval list"
  cache_links :: "jsval list"

record BaseSchemaView =
  view_name :: string
  view_type :: string
  view_limit :: "jsnum option"
  view_order :: "string list option"
  view_filters :: jsval
  view_description :: "string option"

record BaseQueryRequest =
  req_view :: jsval
  req_filter :: jsval
  req_sort :: jsval
  req_limit :: jsval
  req_page :: jsval
  req_evaluate :: jsval

datatype propKind = KNote | KFile | KFormula | KUnknown

record BaseSchemaProperty =
  prop_key :: string
  prop_kind :: propKind
  prop_displayName :: jsval
  prop_valueType :: jsval

text \<open>
  The schema \<^verbatim>\<open>extractSchema\<close> returns; \<^verbatim>\<open>formulas\<close> is a plain object or absent
  (\<^verbatim>\<open>Record<string, any> | undefined\<close>).
\<close>

record BaseSchemaResponse =
  schema_id :: string
  schema_path :: string
  schema_name :: "string option"
  schema_properties :: "BaseSchemaProperty list"
  schema_formulas :: "(string \<times> jsval) list option"
  schema_views :: "BaseSchemaView list"
  schema_filters :: jsval

section \<open>Errors\<close>

text \<open>
  The evaluators contain no \<^verbatim>\<open>throw\<close>, but two things can raise inside them: a cycle of
  formulas recurses until the call stack is exhausted (\<^verbatim>\<open>RangeError\<close>), and
  \<^verbatim>\<open>normalizeLinkish\<close> calls a method on \<^verbatim>\<open>undefined\<close> (\<^verbatim>\<open>TypeError\<close>). The recursive functions
  take the remaining call depth as their first argument and raise \<open>RangeError\<close> at 0.
\<close>

datatype jsError = RangeError | TypeError

fun bindE :: "jsError + 'a \<Rightarrow> ('a \<Rightarrow> jsError + 'b) \<Rightarrow> jsError + 'b" where
  "bindE (Inl e) f = Inl e"
| "bindE (Inr v) f = f v"

section \<open>Reading a note\<close>

text \<open>
  \<^verbatim>\<open>
  const fm = cache?.frontmatter;
  return fm && typeof fm === "object" && !Array.isArray(fm) ? fm : {};
  \<close>
\<close>

definition getFrontmatter :: "TFile \<Rightarrow> (string \<times> jsval) list" where
  "getFrontmatter file = (case cache_frontmatter file of VObj kvs \<Rightarrow> kvs | _ \<Rightarrow> [])"

text \<open>The pieces of \<^verbatim>\<open>s.split(/[, ]+/)\<close> that are not empty.\<close>

fun tokens :: "(char \<Rightarrow> bool) \<Rightarrow> string \<Rightarrow> string \<Rightarrow> string list" where
  "tokens sep cur [] = (if cur = [] then [] else [cur])"
| "tokens sep cur (c # r) =
     (if sep c then (if cur = [] then tokens sep [] r else cur # tokens sep [] r)
      else tokens sep (cur @ [c]) r)"

definition normalizeTag :: "string \<Rightarrow> string" where
  "normalizeTag t = (if startsWith t ''#'' then tl t else t)"

text \<open>
  \<^verbatim>\<open>getTagSet\<close>: the cached tags without their \<^verbatim>\<open>#\<close>, then the frontmatter \<^verbatim>\<open>tags\<close>, a
  string split at commas and spaces or an array of strings. The set is only asked
  for membership.
\<close>

definition getTagSet :: "TFile \<Rightarrow> string list" where
  "getTagSet file =
     (let fromCache =
            filter (\<lambda>t. t \<noteq> [])
              (map (\<lambda>t. normalizeTag (case t of VStr raw \<Rightarrow> raw | _ \<Rightarrow> [])) (cache_tags file));
          fromFm =
            (case objGet (getFrontmatter file) ''tags'' of
               VStr fmTags \<Rightarrow>
                 map normalizeTag
                   (filter (\<lambda>t. t \<noteq> []) (map trim (tokens (\<lambda>c. c = CHR '','' \<or> c = CHR '' '') [] fmTags)))
             | VArr ts \<Rightarrow>
                 concat (map (\<lambda>t. case t of
                                      VStr x \<Rightarrow> if trim x \<noteq> [] then [normalizeTag x] else []
                                    | _ \<Rightarrow> []) ts)
             | _ \<Rightarrow> [])
      in fromCache @ fromFm)"

text \<open>
  \<^verbatim>\<open>
  const want = target.trim();
  if (!want) return false;
  const normalizedWant = want.replace(/\.md$/i, "");
  for (const link of links) {
    const raw = typeof link.link === "string" ? link.link : "";
    if (!raw) continue;
    const normalizedLink = raw.replace(/\.md$/i, "");
    if (normalizedLink === normalizedWant || raw === want) return true;
  }
  return false;
  \<close>
\<close>

definition fileHasLink :: "TFile \<Rightarrow> string \<Rightarrow> bool" where
  "fileHasLink file target =
     (let want = trim target
      in if want = [] then False
         else list_ex (\<lambda>l. case l of
                               VStr raw \<Rightarrow>
                                 raw \<noteq> [] \<and> (stripMdSuffix raw = stripMdSuffix want \<or> raw = want)
                             | _ \<Rightarrow> False)
                (cache_links file))"

text \<open>
  \<^verbatim>\<open>normalizeLinkish\<close>. Its first expression is written \<^verbatim>\<open>/^\\[\\[(.*)\\]\\]$/\<close>: a
  backslash, one character of the class \<^verbatim>\<open>[\\[(.*)\\]\<close>, a backslash and \<^verbatim>\<open>]\<close>. It has no
  capture group, so on a match \<^verbatim>\<open>wiki[1]\<close> is \<^verbatim>\<open>undefined\<close> and the next line's
  \<^verbatim>\<open>v.split("|")\<close> raises. Its last expression is written \<^verbatim>\<open>/\\.md$/i\<close>: a backslash, any
  character, then \<^verbatim>\<open>md\<close>.
\<close>

definition wikiRx :: rx where
  "wikiRx =
     cat [Lit [CHR 0x5C], Cls (\<lambda>c. c \<in> set [CHR 0x5C, CHR ''['', CHR ''('', CHR ''.'', CHR ''*'', CHR '')'']),
          Lit [CHR 0x5C], Lit '']'']"

definition stripBackslashMd :: "string \<Rightarrow> string" where
  "stripBackslashMd s =
     (if 4 \<le> length s \<and> s ! (length s - 4) = CHR 0x5C \<and> dot (s ! (length s - 3)) \<and>
         map lowerAscii (drop (length s - 2) s) = ''md''
      then take (length s - 4) s else s)"

definition normalizeLinkish :: "string \<Rightarrow> jsError + string" where
  "normalizeLinkish v0 =
     (let v = trim v0
      in if rxTest wikiRx v then Inl TypeError
         else Inr (trim (stripBackslashMd
                (takeWhile (\<lambda>c. c \<noteq> CHR ''#'') (takeWhile (\<lambda>c. c \<noteq> CHR ''|'') v)))))"

section \<open>Value resolver and formula evaluator\<close>

text \<open>
  The truthiness test written out twice in the source (\<^verbatim>\<open>condOk\<close> in the formula
  evaluator, \<^verbatim>\<open>ok\<close> for a bare identifier):
  \<^verbatim>\<open>
  v === true ||
  (typeof v === "string" && v.trim().length > 0) ||
  (typeof v === "number" && Number.isFinite(v)) ||
  (Array.isArray(v) && v.length > 0) ||
  (v && typeof v === "object" && Object.keys(v).length > 0)
  \<close>
\<close>

definition condOk :: "jsval \<Rightarrow> bool" where
  "condOk v =
     (case v of
        VBool b \<Rightarrow> b
      | VStr s \<Rightarrow> trim s \<noteq> []
      | VNum n \<Rightarrow> isFinite n
      | VArr xs \<Rightarrow> xs \<noteq> []
      | VObj kvs \<Rightarrow> kvs \<noteq> []
      | _ \<Rightarrow> False)"

text \<open>\<^verbatim>\<open>Array.isArray(v) ? v : v === undefined || v === null ? [] : [v]\<close>\<close>

definition asArray :: "jsval \<Rightarrow> jsval list" where
  "asArray v = (case v of VArr xs \<Rightarrow> xs | VUndef \<Rightarrow> [] | VNull \<Rightarrow> [] | _ \<Rightarrow> [v])"

definition fileField :: "TFile \<Rightarrow> string \<Rightarrow> jsval" where
  "fileField file key =
     (if key = ''path'' then VStr (path file)
      else if key = ''name'' then VStr (basename file)
      else if key = ''ext'' then VStr (extension file)
      else if key = ''size'' then VNum (stat_size file)
      else if key = ''ctime'' then VNum (stat_ctime file)
      else if key = ''mtime'' then VNum (stat_mtime file)
      else if key = ''folder'' then VStr (dirname (path file))
      else VUndef)"

definition isQuoted :: "string \<Rightarrow> bool" where
  "isQuoted raw =
     ((startsWith raw [CHR 0x22] \<and> endsWith raw [CHR 0x22]) \<or>
      (startsWith raw [CHR 0x27] \<and> endsWith raw [CHR 0x27]))"

text \<open>
  \<^verbatim>\<open>getValueForRef\<close>, \<^verbatim>\<open>evalFormula\<close> and \<^verbatim>\<open>evalFormulaExpression\<close> call each other. In the
  \<^verbatim>\<open>if(a, b, c)\<close> form the condition and the then-branch go to \<^verbatim>\<open>getValueForRef\<close>, the
  rest (joined with commas again) to \<^verbatim>\<open>evalFormulaExpression\<close>.
\<close>

fun getValueForRef ::
      "nat \<Rightarrow> host \<Rightarrow> TFile \<Rightarrow> string \<Rightarrow> BaseSchemaResponse option \<Rightarrow> jsError + jsval"
  and evalFormula ::
      "nat \<Rightarrow> host \<Rightarrow> TFile \<Rightarrow> string \<Rightarrow> BaseSchemaResponse option \<Rightarrow> jsError + jsval"
  and evalFormulaExpression ::
      "nat \<Rightarrow> host \<Rightarrow> TFile \<Rightarrow> string \<Rightarrow> BaseSchemaResponse option \<Rightarrow> jsError + jsval"
where
  "getValueForRef 0 h file ref schema = Inl RangeError"
| "getValueForRef (Suc n) h file ref schema =
     (let fm = getFrontmatter file;
          trimmed = trim ref
      in if startsWith trimmed ''file.'' then Inr (fileField file (drop 5 trimmed))
         else if startsWith trimmed ''note.'' then Inr (objGet fm (drop 5 trimmed))
         else if startsWith trimmed ''formula.'' then evalFormula n h file (drop 8 trimmed) schema
         else Inr (objGet fm trimmed))"
| "evalFormula 0 h file formulaKey schema = Inl RangeError"
| "evalFormula (Suc n) h file formulaKey schema =
     (case schema of
        None \<Rightarrow> Inr VUndef
      | Some sch \<Rightarrow>
          (case schema_formulas sch of
             None \<Rightarrow> Inr VUndef
           | Some formulas \<Rightarrow>
               (case objGet formulas formulaKey of
                  VStr expr \<Rightarrow> evalFormulaExpression n h file expr schema
                | _ \<Rightarrow> Inr VUndef)))"
| "evalFormulaExpression 0 h file expr schema = Inl RangeError"
| "evalFormulaExpression (Suc n) h file expr schema =
     (let raw = trim expr
      in if raw = [] then Inr VUndef
         else if raw = ''null'' then Inr VNull
         else if rxTest numberRx raw then Inr (VNum (stringToNumber h raw))
         else if isQuoted raw then Inr (VStr (stripQuotes raw))
         else if startsWith raw ''file.'' \<or> startsWith raw ''note.'' \<or> startsWith raw ''formula.''
           then getValueForRef n h file raw schema
         else if rxTest identRx raw then getValueForRef n h file raw schema
         else (case cap1 (rxMatch joinListRx raw) of
                 Some g \<Rightarrow>
                   bindE (getValueForRef n h file (trim g) schema)
                     (\<lambda>v. Inr (VStr (joinWith '', '' (map (jsString h) (asArray v)))))
               | None \<Rightarrow>
           (case cap1 (rxMatch listRx raw) of
                 Some g \<Rightarrow>
                   bindE (getValueForRef n h file (trim g) schema) (\<lambda>v. Inr (VArr (asArray v)))
               | None \<Rightarrow>
           (case cap1 (rxMatch ifRx raw) of
                 Some g \<Rightarrow>
                   (let args = map trim (splitTopLevelCommas g)
                    in if 3 \<le> length args
                       then (let condRef = args ! 0;
                                 thenRef = args ! 1;
                                 elseExpr = trim (joinWith '','' (drop 2 args))
                             in bindE (getValueForRef n h file condRef schema)
                                  (\<lambda>condVal.
                                     if condOk condVal
                                     then getValueForRef n h file thenRef schema
                                     else evalFormulaExpression n h file elseExpr schema))
                       else Inr VUndef)
               | None \<Rightarrow> Inr VUndef))))"

section \<open>Filter evaluator\<close>

record evalres =
  ok :: bool
  warnings :: "string list"

definition pass :: "bool \<Rightarrow> (jsError + evalres) option" where
  "pass b = Some (Inr \<lparr> ok = b, warnings = [] \<rparr>)"

text \<open>The forms of a statement are tried in order; the first that matches answers.\<close>

fun firstMatch :: "'a option list \<Rightarrow> 'a \<Rightarrow> 'a" where
  "firstMatch [] d = d"
| "firstMatch (None # ms) d = firstMatch ms d"
| "firstMatch (Some x # ms) d = x"

text \<open>\<^verbatim>\<open>file.hasTag(..)\<close> and \<^verbatim>\<open>file.tags.contains(..)\<close>\<close>

definition hasTagForm :: "string \<Rightarrow> TFile \<Rightarrow> string \<Rightarrow> (jsError + evalres) option" where
  "hasTagForm name file raw =
     (case cap1 (rxMatch (callRx name) raw) of
        Some a \<Rightarrow> pass (stripLeadingHash (stripQuotes a) \<in> set (getTagSet file))
      | None \<Rightarrow> None)"

definition inFolderForm :: "TFile \<Rightarrow> string \<Rightarrow> (jsError + evalres) option" where
  "inFolderForm file raw =
     (case cap1 (rxMatch (callRx ''file.inFolder'') raw) of
        Some a \<Rightarrow>
          (let folder = stripTrailingSlashes (backslashesToSlashes (stripQuotes a));
               prefix = (if folder \<noteq> [] then folder @ ''/'' else [])
           in pass (if prefix \<noteq> [] then startsWith (path file) prefix else True))
      | None \<Rightarrow> None)"

definition hasLinkForm :: "TFile \<Rightarrow> string \<Rightarrow> (jsError + evalres) option" where
  "hasLinkForm file raw =
     (case cap1 (rxMatch (callRx ''file.hasLink'') raw) of
        Some a \<Rightarrow> pass (fileHasLink file (stripQuotes a))
      | None \<Rightarrow> None)"

text \<open>
  \<^verbatim>\<open>
  const items = parseStringListLiteral(listContainsMatch[1]);
  const needleRef = listContainsMatch[2].trim();
  let needle = this.getValueForRef(file, needleRef, schema);
  if (needle === undefined) needle = stripQuotes(needleRef);
  return { ok: items.includes(String(needle ?? "")), warnings };
  \<close>
\<close>

definition listContainsForm ::
  "nat \<Rightarrow> host \<Rightarrow> TFile \<Rightarrow> string \<Rightarrow> BaseSchemaResponse option \<Rightarrow> (jsError + evalres) option" where
  "listContainsForm n h file raw schema =
     (case cap2 (rxMatch listContainsRx raw) of
        Some (a, b) \<Rightarrow>
          Some (bindE (getValueForRef n h file (trim b) schema)
                  (\<lambda>v. let needle = (if v = VUndef then VStr (stripQuotes (trim b)) else v)
                       in Inr \<lparr> ok = jsString h (coalesce needle (VStr [])) \<in> set (parseStringListLiteral a),
                                warnings = [] \<rparr>))
      | None \<Rightarrow> None)"

text \<open>\<^verbatim>\<open>file.path.startsWith\<close>, \<^verbatim>\<open>file.path.contains\<close>, \<^verbatim>\<open>file.folder.startsWith\<close>, \<^verbatim>\<open>file.folder.contains\<close>\<close>

definition pathStartsWithForm :: "TFile \<Rightarrow> string \<Rightarrow> (jsError + evalres) option" where
  "pathStartsWithForm file raw =
     (case cap1 (rxMatch (callRx ''file.path.startsWith'') raw) of
        Some a \<Rightarrow> pass (startsWith (path file) (backslashesToSlashes (stripQuotes a)))
      | None \<Rightarrow> None)"

definition pathContainsForm :: "TFile \<Rightarrow> string \<Rightarrow> (jsError + evalres) option" where
  "pathContainsForm file raw =
     (case cap1 (rxMatch (callRx ''file.path.contains'') raw) of
        Some a \<Rightarrow> pass (strIncludes (path file) (backslashesToSlashes (stripQuotes a)))
      | None \<Rightarrow> None)"

definition folderStartsWithForm :: "TFile \<Rightarrow> string \<Rightarrow> (jsError + evalres) option" where
  "folderStartsWithForm file raw =
     (case cap1 (rxMatch (callRx ''file.folder.startsWith'') raw) of
        Some a \<Rightarrow>
          pass (startsWith (dirname (path file))
                  (stripTrailingSlashes (backslashesToSlashes (stripQuotes a))))
      | None \<Rightarrow> None)"

definition folderContainsForm :: "TFile \<Rightarrow> string \<Rightarrow> (jsError + evalres) option" where
  "folderContainsForm file raw =
     (case cap1 (rxMatch (callRx ''file.folder.contains'') raw) of
        Some a \<Rightarrow> pass (strIncludes (dirname (path file)) (backslashesToSlashes (stripQuotes a)))
      | None \<Rightarrow> None)"

text \<open>\<^verbatim>\<open>arr.some((x) => normalizeLinkish(String(x)) === want)\<close>\<close>

fun someLink :: "host \<Rightarrow> string \<Rightarrow> jsval list \<Rightarrow> jsError + bool" where
  "someLink h want [] = Inr False"
| "someLink h want (x # xs) =
     bindE (normalizeLinkish (jsString h x))
       (\<lambda>y. if y = want then Inr True else someLink h want xs)"

text \<open>
  \<^verbatim>\<open>
  const targetRaw = stripQuotes(m[2]);
  const want = normalizeLinkish(targetRaw);
  const v = this.getValueForRef(file, key, schema);
  const arr = Array.isArray(v) ? v : v === undefined || v === null ? [] : [v];
  const ok = arr.some((x) => normalizeLinkish(String(x)) === want);
  \<close>
\<close>

definition containsLinkForm ::
  "rx \<Rightarrow> nat \<Rightarrow> host \<Rightarrow> TFile \<Rightarrow> string \<Rightarrow> BaseSchemaResponse option \<Rightarrow> (jsError + evalres) option" where
  "containsLinkForm re n h file raw schema =
     (case cap2 (rxMatch re raw) of
        Some (key, t) \<Rightarrow>
          Some (bindE (normalizeLinkish (stripQuotes t))
                  (\<lambda>want. bindE (getValueForRef n h file key schema)
                     (\<lambda>v. bindE (someLink h want (asArray v))
                        (\<lambda>b. Inr \<lparr> ok = b, warnings = [] \<rparr>))))
      | None \<Rightarrow> None)"

text \<open>
  \<^verbatim>\<open>
  const field = `file.${m[1]}`; const op = m[2]; const needle = stripQuotes(m[3]);
  const hay = String(this.getValueForRef(file, field, schema) ?? "");
  if (op === "contains") return { ok: hay.includes(needle), warnings };
  return { ok: hay.startsWith(needle), warnings };
  \<close>
\<close>

definition fileFieldOpForm ::
  "nat \<Rightarrow> host \<Rightarrow> TFile \<Rightarrow> string \<Rightarrow> BaseSchemaResponse option \<Rightarrow> (jsError + evalres) option" where
  "fileFieldOpForm n h file raw schema =
     (case cap3 (rxMatch fileFieldOpRx raw) of
        Some (f, op, a) \<Rightarrow>
          Some (bindE (getValueForRef n h file (''file.'' @ f) schema)
                  (\<lambda>v. let hay = jsString h (coalesce v (VStr []));
                           needle = stripQuotes a
                       in Inr \<lparr> ok = (if op = ''contains'' then strIncludes hay needle
                                       else startsWith hay needle),
                                warnings = [] \<rparr>))
      | None \<Rightarrow> None)"

text \<open>
  The right-hand side of a comparison:
  \<^verbatim>\<open>
  let right: any = stripQuotes(rightRaw);
  if (/^(true|false)$/i.test(rightRaw)) right = /^true$/i.test(rightRaw);
  else if (/^-?\d+(\.\d+)?$/.test(rightRaw)) right = Number(rightRaw);
  \<close>
\<close>

definition rightValue :: "host \<Rightarrow> string \<Rightarrow> jsval" where
  "rightValue h rightRaw =
     (if rxTest boolRx rightRaw then VBool (rxTest trueRx rightRaw)
      else if rxTest numberRx2 rightRaw then VNum (stringToNumber h rightRaw)
      else VStr (stripQuotes rightRaw))"

text \<open>
  The \<^verbatim>\<open>switch (op)\<close>: numbers are compared when both sides convert to finite numbers,
  else the string forms are compared by code units. \<open>None\<close> when no case applies.
\<close>

definition compareValues :: "host \<Rightarrow> string \<Rightarrow> jsval \<Rightarrow> jsval \<Rightarrow> bool option" where
  "compareValues h op left right =
     (let leftNum = (case left of VNum l \<Rightarrow> l | _ \<Rightarrow> toNumber h left);
          rightNum = (case right of VNum r \<Rightarrow> r | _ \<Rightarrow> toNumber h right);
          bothNumeric = (isFinite leftNum \<and> isFinite rightNum);
          sl = jsString h left;
          sr = jsString h right
      in if op = ''=='' \<or> op = ''='' then Some (if bothNumeric then numEq leftNum rightNum else sl = sr)
         else if op = ''!='' then Some (if bothNumeric then \<not> numEq leftNum rightNum else sl \<noteq> sr)
         else if op = ''>'' then Some (if bothNumeric then numLess rightNum leftNum else sr < sl)
         else if op = ''<'' then Some (if bothNumeric then numLess leftNum rightNum else sl < sr)
         else if op = ''>='' then Some (if bothNumeric then numLessEq rightNum leftNum else sr \<le> sl)
         else if op = ''<='' then Some (if bothNumeric then numLessEq leftNum rightNum else sl \<le> sr)
         else None)"

definition comparisonForm ::
  "nat \<Rightarrow> host \<Rightarrow> TFile \<Rightarrow> string \<Rightarrow> BaseSchemaResponse option \<Rightarrow> (jsError + evalres) option" where
  "comparisonForm n h file raw schema =
     (case cap3 (rxMatch opRx raw) of
        Some (l, op, r) \<Rightarrow>
          (case getValueForRef n h file (trim l) schema of
             Inl e \<Rightarrow> Some (Inl e)
           | Inr left \<Rightarrow>
               (case compareValues h op left (rightValue h (trim r)) of
                  Some b \<Rightarrow> pass b
                | None \<Rightarrow> None))
      | None \<Rightarrow> None)"

definition bareIdentifierForm ::
  "nat \<Rightarrow> host \<Rightarrow> TFile \<Rightarrow> string \<Rightarrow> BaseSchemaResponse option \<Rightarrow> (jsError + evalres) option" where
  "bareIdentifierForm n h file raw schema =
     (if rxTest identRx raw
      then Some (bindE (getValueForRef n h file raw schema)
                   (\<lambda>v. Inr \<lparr> ok = condOk v, warnings = [] \<rparr>))
      else None)"

text \<open>
  The part of \<^verbatim>\<open>evaluateStatement\<close> below the splits and the negations, on the trimmed
  statement: the built-in functions, the comparison, the bare identifier, and at the
  end \<^verbatim>\<open>warnings.push(`Filter non reconnu: ${raw}`); return { ok: true, warnings };\<close>
\<close>

definition evaluateAtom ::
  "nat \<Rightarrow> host \<Rightarrow> TFile \<Rightarrow> string \<Rightarrow> BaseSchemaResponse option \<Rightarrow> jsError + evalres" where
  "evaluateAtom n h file raw schema =
     firstMatch
       [hasTagForm ''file.hasTag'' file raw,
        inFolderForm file raw,
        hasLinkForm file raw,
        listContainsForm n h file raw schema,
        pathStartsWithForm file raw,
        pathContainsForm file raw,
        folderStartsWithForm file raw,
        folderContainsForm file raw,
        hasTagForm ''file.tags.contains'' file raw,
        containsLinkForm listPropContainsLinkRx n h file raw schema,
        containsLinkForm propContainsLinkRx n h file raw schema,
        fileFieldOpForm n h file raw schema,
        comparisonForm n h file raw schema,
        bareIdentifierForm n h file raw schema]
       (Inr \<lparr> ok = True, warnings = [''Filter non reconnu: '' @ raw] \<rparr>)"

text \<open>
  A trimmed statement that none of the forms of \<^verbatim>\<open>evaluateStatement\<close> accepts: no split
  at a top-level \<^verbatim>\<open>or\<close>, \<^verbatim>\<open>||\<close>, \<^verbatim>\<open>and\<close> or \<^verbatim>\<open>&&\<close>, no negation prefix, no match of a
  built-in function, no comparison, not a bare identifier.
\<close>

definition unrecognized :: "string \<Rightarrow> bool" where
  "unrecognized raw =
     (length (splitOutsideQuotes raw '' or '') \<le> 1 \<and>
      length (splitOutsideQuotes raw ''||'') \<le> 1 \<and>
      length (splitOutsideQuotes raw '' and '') \<le> 1 \<and>
      length (splitOutsideQuotes raw ''&&'') \<le> 1 \<and>
      \<not> startsWith raw ''not '' \<and>
      \<not> startsWith raw ''!'' \<and>
      rxMatch (callRx ''file.hasTag'') raw = None \<and>
      rxMatch (callRx ''file.inFolder'') raw = None \<and>
      rxMatch (callRx ''file.hasLink'') raw = None \<and>
      rxMatch listContainsRx raw = None \<and>
      rxMatch (callRx ''file.path.startsWith'') raw = None \<and>
      rxMatch (callRx ''file.path.contains'') raw = None \<and>
      rxMatch (callRx ''file.folder.startsWith'') raw = None \<and>
      rxMatch (callRx ''file.folder.contains'') raw = None \<and>
      rxMatch (callRx ''file.tags.contains'') raw = None \<and>
      rxMatch listPropContainsLinkRx raw = None \<and>
      rxMatch propContainsLinkRx raw = None \<and>
      rxMatch fileFieldOpRx raw = None \<and>
      rxMatch opRx raw = None \<and>
      \<not> rxTest identRx raw)"

text \<open>
  The loops over the parts of a split. Both push the warnings of every part they
  evaluate; the \<^verbatim>\<open>or\<close> loop goes through all parts (\<^verbatim>\<open>if (res.ok) any = true\<close>), the \<^verbatim>\<open>and\<close>
  loop returns at the first part that fails. A part that raises ends the loop.
\<close>

fun orLoop :: "bool \<Rightarrow> string list \<Rightarrow> (jsError + evalres) list \<Rightarrow> jsError + evalres" where
  "orLoop any ws [] = Inr \<lparr> ok = any, warnings = ws \<rparr>"
| "orLoop any ws (Inl e # rs) = Inl e"
| "orLoop any ws (Inr res # rs) = orLoop (any \<or> ok res) (ws @ warnings res) rs"

fun andLoop :: "string list \<Rightarrow> (jsError + evalres) list \<Rightarrow> jsError + evalres" where
  "andLoop ws [] = Inr \<lparr> ok = True, warnings = ws \<rparr>"
| "andLoop ws (Inl e # rs) = Inl e"
| "andLoop ws (Inr res # rs) =
     (if \<not> ok res then Inr \<lparr> ok = False, warnings = ws @ warnings res \<rparr>
      else andLoop (ws @ warnings res) rs)"

definition negated :: "jsError + evalres \<Rightarrow> jsError + evalres" where
  "negated r = bindE r (\<lambda>res. Inr \<lparr> ok = \<not> ok res, warnings = warnings res \<rparr>)"

fun evaluateStatement ::
  "nat \<Rightarrow> host \<Rightarrow> TFile \<Rightarrow> string \<Rightarrow> BaseSchemaResponse option \<Rightarrow> jsError + evalres" where
  "evaluateStatement 0 h file statement schema = Inl RangeError"
| "evaluateStatement (Suc n) h file statement schema =
     (let raw = trim statement
      in if raw = [] then Inr \<lparr> ok = True, warnings = [] \<rparr>
         else if 1 < length (splitOutsideQuotes raw '' or '')
           then orLoop False []
                  (map (\<lambda>part. evaluateStatement n h file part schema) (splitOutsideQuotes raw '' or ''))
         else if 1 < length (splitOutsideQuotes raw ''||'')
           then orLoop False []
                  (map (\<lambda>part. evaluateStatement n h file part schema) (splitOutsideQuotes raw ''||''))
         else if 1 < length (splitOutsideQuotes raw '' and '')
           then andLoop []
                  (map (\<lambda>part. evaluateStatement n h file part schema) (splitOutsideQuotes raw '' and ''))
         else if 1 < length (splitOutsideQuotes raw ''&&'')
           then andLoop []
                  (map (\<lambda>part. evaluateStatement n h file part schema) (splitOutsideQuotes raw ''&&''))
         else if startsWith raw ''not '' then negated (evaluateStatement n h file (drop 4 raw) schema)
         else if startsWith raw ''!'' then negated (evaluateStatement n h file (drop 1 raw) schema)
         else evaluateAtom n h file raw schema)"

text \<open>
  \<^verbatim>\<open>evaluateFilter\<close> on a filter of any shape: a falsy filter passes; a string is a
  statement; an object that is not an array is looked at for an array \<^verbatim>\<open>and\<close>, then an
  array \<^verbatim>\<open>or\<close>, then a truthy \<^verbatim>\<open>not\<close>; everything else passes with a warning.
\<close>

definition unknownShape :: "jsError + evalres" where
  "unknownShape =
     Inr \<lparr> ok = True, warnings = [''Filter non support'' @ [CHR 0xE9] @ '' (shape inconnu).''] \<rparr>"

fun evaluateFilter ::
  "nat \<Rightarrow> host \<Rightarrow> TFile \<Rightarrow> jsval \<Rightarrow> BaseSchemaResponse option \<Rightarrow> jsError + evalres" where
  "evaluateFilter 0 h file flt schema = Inl RangeError"
| "evaluateFilter (Suc n) h file flt schema =
     (if \<not> jsTruthy flt then Inr \<lparr> ok = True, warnings = [] \<rparr>
      else (case flt of
              VStr statement \<Rightarrow> evaluateStatement n h file statement schema
            | VObj kvs \<Rightarrow>
                (case objGet kvs ''and'' of
                   VArr parts \<Rightarrow> andLoop [] (map (\<lambda>part. evaluateFilter n h file part schema) parts)
                 | _ \<Rightarrow>
                     (case objGet kvs ''or'' of
                        VArr parts \<Rightarrow>
                          orLoop False [] (map (\<lambda>part. evaluateFilter n h file part schema) parts)
                      | _ \<Rightarrow>
                          if jsTruthy (objGet kvs ''not'')
                          then negated (evaluateFilter n h file (objGet kvs ''not'') schema)
                          else unknownShape))
            | _ \<Rightarrow> unknownShape))"

section \<open>queryBase: view, page size, page number, page\<close>

text \<open>
  \<^verbatim>\<open>
  const viewName = typeof body?.view === "string" ? body.view : undefined;
  const view = viewName ? schema.views.find((v) => v.name === viewName) : schema.views[0];
  const limit = clampInt(body?.limit ?? view?.limit ?? 20, 20, 1, 500);
  const page = clampInt(body?.page ?? 1, 1, 1, 1_000_000);
  \<close>
\<close>

definition selectView :: "BaseQueryRequest \<Rightarrow> BaseSchemaView list \<Rightarrow> BaseSchemaView option" where
  "selectView body views =
     (case req_view body of
        VStr n \<Rightarrow>
          if n \<noteq> [] then find (\<lambda>v. view_name v = n) views
          else (case views of [] \<Rightarrow> None | v # _ \<Rightarrow> Some v)
      | _ \<Rightarrow> (case views of [] \<Rightarrow> None | v # _ \<Rightarrow> Some v))"

definition viewLimitValue :: "BaseSchemaView option \<Rightarrow> jsval" where
  "viewLimitValue view =
     (case view of
        None \<Rightarrow> VUndef
      | Some v \<Rightarrow> (case view_limit v of None \<Rightarrow> VUndef | Some n \<Rightarrow> VNum n))"

definition queryLimit :: "host \<Rightarrow> BaseQueryRequest \<Rightarrow> BaseSchemaView option \<Rightarrow> int" where
  "queryLimit h body view =
     clampInt h (coalesce (req_limit body) (coalesce (viewLimitValue view) (VNum (Fin 20)))) 20 1 500"

definition queryPage :: "host \<Rightarrow> BaseQueryRequest \<Rightarrow> int" where
  "queryPage h body = clampInt h (coalesce (req_page body) (VNum (Fin 1))) 1 1 1000000"

text \<open>
  \<^verbatim>\<open>
  const start = (page - 1) * limit;
  const slice = matches.slice(start, start + limit);
  \<close>
\<close>

definition pageSlice :: "'a list \<Rightarrow> int \<Rightarrow> int \<Rightarrow> 'a list" where
  "pageSlice matches page limit =
     (let start = (page - 1) * limit in jsSlice matches start (start + limit))"

section \<open>queryBase: the warnings of a response\<close>








text \<open>
  The filter of a query and the scan of the vault:
  \<^verbatim>\<open>
  const combinedFilter = { and: [schema.filters, view?.filters, body?.filter].filter(Boolean) };
  const files = this.app.vault.getFiles()
    .filter((f) => !f.path.startsWith(".obsidian/") && f.extension !== "base");
  const matches: TFile[] = [];
  for (const f of files) {
    if (!(f instanceof TFile)) continue;
    const r = this.evaluateFilter(f, combinedFilter, schema);
    addWarnings(r.warnings);
    if (r.ok) matches.push(f);
  }
  \<close>
  The state of the scan is the match list and the warning set with its flag.
\<close>

definition combinedFilter ::
  "BaseSchemaResponse \<Rightarrow> BaseSchemaView option \<Rightarrow> BaseQueryRequest \<Rightarrow> jsval" where
  "combinedFilter schema view body =
     VObj [(''and'',
            VArr (filter jsTruthy
                    [schema_filters schema,
                     (case view of None \<Rightarrow> VUndef | Some v \<Rightarrow> view_filters v),
                     req_filter body]))]"

definition candidateFiles :: "TFile list \<Rightarrow> TFile list" where
  "candidateFiles files =
     filter (\<lambda>f. \<not> startsWith (path f) ''.obsidian/'' \<and> extension f \<noteq> ''base'') files"






section \<open>upsertBase\<close>

text \<open>
  The vault answers \<^verbatim>\<open>getAbstractFileByPath\<close>: nothing, a folder or a file.
  \<^verbatim>\<open>fileManager.processFrontMatter(file, fn)\<close> belongs to the host: it either throws
  (\<open>Inl\<close> the message) or leaves the file rewritten with a new \<^verbatim>\<open>stat\<close> (\<open>Inr\<close> the file
  afterwards). It is a parameter of the model.
\<close>

datatype abstractFile = File TFile | Folder

type_synonym vault = "string \<Rightarrow> abstractFile option"

type_synonym frontMatterWriter =
  "TFile \<Rightarrow> ((string \<times> jsval) list \<Rightarrow> (string \<times> jsval) list) \<Rightarrow> string + TFile"

record BaseUpsertOperation =
  op_file :: jsval
  op_set :: jsval
  op_unset :: jsval
  op_expected_mtime :: jsval

record BaseUpsertResult =
  res_file :: string
  res_mtime :: jsnum
  res_changed :: "(string list \<times> string list option) option"
  res_error :: "(string \<times> string) option"

record BaseUpsertResponse =
  resp_ok :: bool
  resp_results :: "BaseUpsertResult list"

text \<open>\<^verbatim>\<open>fm[k] = v\<close> and \<^verbatim>\<open>delete fm[k]\<close> on the frontmatter object.\<close>

definition objSet :: "(string \<times> jsval) list \<Rightarrow> string \<Rightarrow> jsval \<Rightarrow> (string \<times> jsval) list" where
  "objSet kvs k v =
     (if k \<in> fst ` set kvs then map (\<lambda>kv. if fst kv = k then (k, v) else kv) kvs
      else kvs @ [(k, v)])"

definition objDelete :: "(string \<times> jsval) list \<Rightarrow> string \<Rightarrow> (string \<times> jsval) list" where
  "objDelete kvs k = filter (\<lambda>kv. fst kv \<noteq> k) kvs"

text \<open>
  The callback handed to \<^verbatim>\<open>processFrontMatter\<close>:
  \<^verbatim>\<open>
  for (const [k, v] of Object.entries(setObj)) { fm[k] = v; changedKeys.push(k); }
  for (const k of unsetArr) { if (k in fm) delete fm[k]; }
  \<close>
\<close>

definition mutateFrontMatter ::
  "(string \<times> jsval) list \<Rightarrow> string list \<Rightarrow> (string \<times> jsval) list \<Rightarrow> (string \<times> jsval) list" where
  "mutateFrontMatter setObj unsetArr fm =
     foldl objDelete (foldl (\<lambda>m kv. objSet m (fst kv) (snd kv)) fm setObj) unsetArr"

definition stringsOf :: "jsval list \<Rightarrow> string list" where
  "stringsOf vs = concat (map (\<lambda>v. case v of VStr s \<Rightarrow> [s] | _ \<Rightarrow> []) vs)"

definition validationMessage :: string where
  "validationMessage = ''Op'' @ [CHR 0xE9] @ ''ration sans champ '' @ [CHR 0x27] @ ''file'' @ [CHR 0x27] @ ''.''"

text \<open>\<^verbatim>\<open>`Conflit mtime (expected=${expected}, actual=${abstract.stat.mtime}).`\<close>\<close>

definition conflictMessage :: "host \<Rightarrow> jsnum option \<Rightarrow> jsnum \<Rightarrow> string" where
  "conflictMessage h expected actual =
     ''Conflit mtime (expected=''
       @ (case expected of Some e \<Rightarrow> numToString h e | None \<Rightarrow> ''undefined'')
       @ '', actual='' @ numToString h actual @ '').''"

text \<open>
  One turn of the loop over \<^verbatim>\<open>body.operations\<close>: the vault afterwards and the result
  pushed. The order of the checks is the source's: missing \<^verbatim>\<open>file\<close>, note not found,
  \<^verbatim>\<open>expected && abstract.stat.mtime !== expected\<close>, then the write.
\<close>

definition upsertOne ::
  "host \<Rightarrow> frontMatterWriter \<Rightarrow> vault \<Rightarrow> BaseUpsertOperation \<Rightarrow> vault \<times> BaseUpsertResult" where
  "upsertOne h processFrontMatter vlt op =
     (let filePath = normBaseId h (jsString h (coalesce (op_file op) (VStr [])))
      in if filePath = [] then
           (vlt, \<lparr> res_file = [], res_mtime = Fin 0, res_changed = None,
                   res_error = Some (''validation_error'', validationMessage) \<rparr>)
         else (case vlt filePath of
                 Some (File abstract) \<Rightarrow>
                   (let expected = (case op_expected_mtime op of VNum n \<Rightarrow> Some n | _ \<Rightarrow> None)
                    in if (case expected of
                             Some e \<Rightarrow> numTruthy e \<and> \<not> numEq (stat_mtime abstract) e
                           | None \<Rightarrow> False)
                       then
                         (vlt, \<lparr> res_file = filePath, res_mtime = stat_mtime abstract,
                                 res_changed = None,
                                 res_error = Some (''mtime_conflict'',
                                   conflictMessage h expected (stat_mtime abstract)) \<rparr>)
                       else
                         (let setObj = (case op_set op of VObj kvs \<Rightarrow> kvs | _ \<Rightarrow> []);
                              unsetArr = (case op_unset op of VArr ks \<Rightarrow> stringsOf ks | _ \<Rightarrow> [])
                          in (case processFrontMatter abstract (mutateFrontMatter setObj unsetArr) of
                                Inr written \<Rightarrow>
                                  (vlt(filePath \<mapsto> File written),
                                   \<lparr> res_file = filePath, res_mtime = stat_mtime written,
                                     res_changed = Some (map fst setObj,
                                        if unsetArr \<noteq> [] then Some unsetArr else None),
                                     res_error = None \<rparr>)
                              | Inl msg \<Rightarrow>
                                  (vlt, \<lparr> res_file = filePath, res_mtime = stat_mtime abstract,
                                          res_changed = None,
                                          res_error = Some (''write_error'', msg) \<rparr>))))
               | _ \<Rightarrow>
                   (vlt, \<lparr> res_file = filePath, res_mtime = Fin 0, res_changed = None,
                           res_error = Some (''not_found'', ''Note introuvable: '' @ filePath) \<rparr>)))"

definition hasError :: "BaseUpsertResult \<Rightarrow> bool" where
  "hasError r = (res_error r \<noteq> None)"

text \<open>
  The loop: every result is pushed; after a failed operation the loop breaks unless
  \<^verbatim>\<open>continueOnError\<close>.
\<close>

fun upsertLoop ::
  "host \<Rightarrow> frontMatterWriter \<Rightarrow> bool \<Rightarrow> vault \<Rightarrow> BaseUpsertOperation list \<Rightarrow>
   BaseUpsertResult list \<Rightarrow> vault \<times> BaseUpsertResult list" where
  "upsertLoop h w continueOnError vlt [] results = (vlt, results)"
| "upsertLoop h w continueOnError vlt (op # ops) results =
     (let (vlt', r) = upsertOne h w vlt op
      in if hasError r \<and> \<not> continueOnError then (vlt', results @ [r])
         else upsertLoop h w continueOnError vlt' ops (results @ [r]))"

definition upsertBase ::
  "host \<Rightarrow> frontMatterWriter \<Rightarrow> vault \<Rightarrow> BaseUpsertOperation list \<Rightarrow> jsval \<Rightarrow>
   vault \<times> BaseUpsertResponse" where
  "upsertBase h w vlt operations continueOnError =
     (let (vlt', results) = upsertLoop h w (jsTruthy continueOnError) vlt operations []
      in (vlt', \<lparr> resp_ok = list_all (\<lambda>r. \<not> hasError r) results,
                  resp_results = results \<rparr>))"

definition errorCode :: "BaseUpsertResult \<Rightarrow> string option" where
  "errorCode r = map_option fst (res_error r)"

section \<open>A sample host\<close>

text \<open>
  One instance of the runtime parameters, for evaluating the model at concrete inputs:
  exact rounding, code-unit collation, and a \<^verbatim>\<open>decodeURIComponent\<close> that is the identity
  (as it is on strings without a percent sign). The theorems do not depend on it.
\<close>

definition sampleHost :: host where
  "sampleHost =
     \<lparr> roundDouble = Fin,
       formatNum = (\<lambda>q. ''?''),
       localeCompare = (\<lambda>a b. if a = b then 0 else if a < b then - 1 else 1),
       decodeURIComponent = Some \<rparr>"

text \<open>A vault with one note, last modified at 5, and a writer that stamps 6.\<close>

definition sampleNote :: TFile where
  "sampleNote =
     \<lparr> path = ''A.md'', basename = ''A'', extension = ''md'',
       stat_size = Fin 10, stat_ctime = Fin 1, stat_mtime = Fin 5,
       cache_frontmatter = VObj [(''priority'', VNum (Fin 0))],
       cache_tags = [], cache_links = [] \<rparr>"

definition sampleVault :: vault where
  "sampleVault = [''A.md'' \<mapsto> File sampleNote]"

definition sampleWriter :: frontMatterWriter where
  "sampleWriter f g =
     Inr (f\<lparr> stat_mtime := Fin 6,
              cache_frontmatter :=
                VObj (g (case cache_frontmatter f of VObj kvs \<Rightarrow> kvs | _ \<Rightarrow> [])) \<rparr>)"

definition sampleOp :: "string \<Rightarrow> jsval \<Rightarrow> BaseUpsertOperation" where
  "sampleOp f e =
     \<lparr> op_file = VStr f, op_set = VObj [(''status'', VStr ''done'')], op_unset = VUndef,
       op_expected_mtime = e \<rparr>"

definition fractionalLimitRequest :: BaseQueryRequest where
  "fractionalLimitRequest =
     \<lparr> req_view = VUndef, req_filter = VUndef, req_sort = VUndef,
       req_limit = VNum (Fin (27 / 10)), req_page = VStr ''7'', req_evaluate = VUndef \<rparr>"

text \<open>Notes and formulas for evaluating the formula and filter evaluators.\<close>

definition quote :: "string \<Rightarrow> string" where
  "quote s = [CHR 0x27] @ s @ [CHR 0x27]"

definition noteWith :: "(string \<times> jsval) list \<Rightarrow> TFile" where
  "noteWith fm =
     \<lparr> path = ''Projects/A.md'', basename = ''A'', extension = ''md'',
       stat_size = Fin 10, stat_ctime = Fin 1, stat_mtime = Fin 5,
       cache_frontmatter = VObj fm, cache_tags = [], cache_links = [] \<rparr>"

definition ifPriorityFormula :: string where
  "ifPriorityFormula = ''if(priority, '' @ quote ''has-priority'' @ '', '' @ quote ''none'' @ '')''"

definition ifFlagFormula :: string where
  "ifFlagFormula = ''if(flag, '' @ quote ''yes'' @ '', '' @ quote ''no'' @ '')''"

definition orFilter :: jsval where
  "orFilter = VObj [(''or'', VArr [VStr ''flag'', VStr ''foo(bar)''])]"

section \<open>Pagination\<close>

lemma jsSlice_window:
  "jsSlice xs (int a) (int a + int b) = take b (drop a xs)"
proof (cases "a \<le> length xs")
  case True
  have "nat (min (int a + int b) (int (length xs)) - int a) = min b (length xs - a)"
    using True by (simp add: min_def) linarith
  moreover have "take (min b (length xs - a)) (drop a xs) = take b (drop a xs)"
    by (cases "b \<le> length xs - a") (simp_all add: min_def)
  ultimately show ?thesis
    using True by (simp add: jsSlice_def Let_def min_absorb1)
next
  case False
  then show ?thesis
    by (simp add: jsSlice_def Let_def min_def)
qed

lemma pageSlice_take_drop:
  assumes "1 \<le> L" "1 \<le> p"
  shows "pageSlice xs p L = take (nat L) (drop (nat ((p - 1) * L)) xs)"
proof -
  have s0: "0 \<le> (p - 1) * L" using assms by simp
  obtain a where a: "(p - 1) * L = int a" using s0 by (metis nat_0_le)
  obtain b where b: "L = int b" using assms by (metis nat_0_le zero_le_one order_trans)
  have "pageSlice xs p L = jsSlice xs (int a) (int a + L)"
    by (simp add: pageSlice_def Let_def a)
  also have "\<dots> = jsSlice xs (int a) (int a + int b)"
    by (simp add: b)
  also have "\<dots> = take b (drop a xs)"
    by (rule jsSlice_window)
  also have "\<dots> = take (nat L) (drop (nat ((p - 1) * L)) xs)"
    by (simp add: a) (simp add: b)
  finally show ?thesis .
qed

lemma concat_chunks:
  "concat (map (\<lambda>i. take n (drop (i * n) xs)) [0..<m]) = take (m * n) xs"
proof (induction m)
  case 0
  then show ?case by simp
next
  case (Suc m)
  have "take (m * n) xs @ take n (drop (m * n) xs) = take (m * n + n) xs"
    by (simp add: take_add)
  with Suc show ?case by (simp add: add.commute)
qed

lemma map_upto_nat: "map f [1..int m] = map (\<lambda>i. f (int i + 1)) [0..<m]"
proof (induction m)
  case 0
  then show ?case by simp
next
  case (Suc m)
  have "[1..int (Suc m)] = [1..int m] @ [int m + 1]"
    by (simp add: upto_rec2 add.commute)
  with Suc show ?case by simp
qed

text \<open>
  Claim C5. For a sorted match list \<open>xs\<close> of length \<open>T\<close> and a page size \<open>L\<close> in
  \<open>[1,500]\<close>, page \<open>p\<close> is the window of \<open>L\<close> entries starting at index \<open>(p-1)*L\<close>, and
  the pages \<open>1 .. ceil(T/L)\<close> put one after the other are the match list itself:
  nothing is repeated and nothing is left out. The same holds for the rows built from
  the pages, whatever \<open>row\<close> builds from a file.
\<close>

theorem pagination_pages_partition_matches:
  assumes "1 \<le> L" "L \<le> 500"
  shows "(\<forall>p\<ge>1. pageSlice xs p L = take (nat L) (drop (nat ((p - 1) * L)) xs)) \<and>
         concat (map (\<lambda>p. pageSlice xs p L) [1..(int (length xs) + L - 1) div L]) = xs \<and>
         concat (map (\<lambda>p. map row (pageSlice xs p L)) [1..(int (length xs) + L - 1) div L]) = map row xs"
proof -
  have pages: "\<forall>p\<ge>1. pageSlice xs p L = take (nat L) (drop (nat ((p - 1) * L)) xs)"
    using assms pageSlice_take_drop by blast
  have whole: "concat (map (\<lambda>p. pageSlice xs p L) [1..(int (length xs) + L - 1) div L]) = xs"
  proof -
    define m where "m = nat ((int (length xs) + L - 1) div L)"
    have mpos: "0 \<le> (int (length xs) + L - 1) div L"
      using assms by (simp add: pos_imp_zdiv_nonneg_iff)
    then have m_eq: "(int (length xs) + L - 1) div L = int m" by (simp add: m_def)
    have cover: "int (length xs) \<le> int m * L"
    proof -
      have "int (length xs) + L - 1 = int m * L + (int (length xs) + L - 1) mod L"
        using m_eq by (metis mult.commute mult_div_mod_eq)
      moreover have "(int (length xs) + L - 1) mod L \<le> L - 1"
        using assms by (simp add: zle_diff1_eq)
      ultimately show ?thesis by linarith
    qed
    have "concat (map (\<lambda>p. pageSlice xs p L) [1..int m])
            = concat (map (\<lambda>i. pageSlice xs (int i + 1) L) [0..<m])"
      by (simp add: map_upto_nat)
    also have "\<dots> = concat (map (\<lambda>i. take (nat L) (drop (i * nat L) xs)) [0..<m])"
    proof -
      have "\<And>i. pageSlice xs (int i + 1) L = take (nat L) (drop (i * nat L) xs)"
        using assms by (simp add: pageSlice_take_drop nat_mult_distrib)
      then show ?thesis by simp
    qed
    also have "\<dots> = take (m * nat L) xs" by (rule concat_chunks)
    also have "\<dots> = xs"
    proof -
      have "length xs \<le> m * nat L"
        using cover assms by (metis nat_int nat_mono nat_mult_distrib of_nat_0_le_iff)
      then show ?thesis by simp
    qed
    finally show ?thesis
      by (simp add: m_eq)
  qed
  have "concat (map (\<lambda>p. map row (pageSlice xs p L)) [1..(int (length xs) + L - 1) div L])
          = map row (concat (map (\<lambda>p. pageSlice xs p L) [1..(int (length xs) + L - 1) div L]))"
    by (simp add: map_concat comp_def)
  then have rows:
    "concat (map (\<lambda>p. map row (pageSlice xs p L)) [1..(int (length xs) + L - 1) div L]) = map row xs"
    by (simp only: whole)
  from pages whole rows show ?thesis by blast
qed

theorem pagination_pages_partition_matches_witness:
  "(1::int) \<le> 2 \<and> (2::int) \<le> 500 \<and>
   pageSlice ''abcde'' 3 2 = ''e'' \<and>
   concat (map (\<lambda>p. pageSlice ''abcde'' p 2) [1..3]) = ''abcde'' \<and>
   concat (map (\<lambda>p. map (\<lambda>c. [c, c]) (pageSlice ''abcde'' p 2)) [1..3])
     = [''aa'', ''bb'', ''cc'', ''dd'', ''ee'']"
  using pagination_pages_partition_matches [where L = 2 and xs = "''abcde''" and row = "\<lambda>c. [c, c]"]
  by (simp add: upto_rec1)

section \<open>Page size and page number\<close>

lemma clampInt_range:
  "mn \<le> mx \<Longrightarrow> mn \<le> fb \<Longrightarrow> fb \<le> mx \<Longrightarrow>
   mn \<le> clampInt h v fb mn mx \<and> clampInt h v fb mn mx \<le> mx"
  by (simp add: clampInt_def split: jsnum.splits)

lemma truncInt_27_10: "truncInt (27 / 10) = 2"
  unfolding truncInt_def by code_simp

lemmas numberSimps =
  stringToNumber_def trim_def isSpace_def parseRadix_def parseDecimal_def Let_def isDigit_def
  parseExponent_def digitsVal_def digitVal_def toDouble_def isInteger_def

text \<open>
  Claim C7, as stated: the effective page size is the request limit (else the view's
  limit, else 20) clamped into \<open>[1,500]\<close>. It fails for a limit that is not an integer:
  \<^verbatim>\<open>clampInt\<close> applies \<^verbatim>\<open>Math.trunc\<close> before clamping, so the limit 2.7 gives 2, which
  is not 2.7 clamped into \<open>[1,500]\<close>.
\<close>

theorem queryLimit_fraction_counterexample:
  "\<not> (rat_of_int (queryLimit sampleHost fractionalLimitRequest None) = max 1 (min 500 (27 / 10)))"
  by (simp add: queryLimit_def fractionalLimitRequest_def coalesce_def nullish_def clampInt_def
        toNumber_def truncInt_27_10)

text \<open>
  Claim C7, amended. The page size is taken from the request limit when it is neither
  \<^verbatim>\<open>undefined\<close> nor \<^verbatim>\<open>null\<close>, else from the selected view's limit, else it is 20; the
  page number from the request page, else 1. The value is converted with \<^verbatim>\<open>Number\<close>; when
  the number is finite it is truncated towards zero and then clamped into \<open>[1,500]\<close>
  (page: \<open>[1,1000000]\<close>); when it is not finite the result is 20 (page: 1). The results
  always lie in these ranges.
\<close>

theorem queryLimit_queryPage_effective:
  "(\<not> nullish (req_limit body) \<longrightarrow>
      queryLimit h body view =
        (case toNumber h (req_limit body) of
           Fin q \<Rightarrow> max 1 (min 500 (truncInt q)) | _ \<Rightarrow> 20)) \<and>
   (nullish (req_limit body) \<longrightarrow>
      queryLimit h body view =
        (case view of
           None \<Rightarrow> 20
         | Some v \<Rightarrow>
             (case view_limit v of
                Some (Fin q) \<Rightarrow> max 1 (min 500 (truncInt q)) | _ \<Rightarrow> 20))) \<and>
   queryPage h body =
     (if nullish (req_page body) then 1
      else (case toNumber h (req_page body) of
              Fin q \<Rightarrow> max 1 (min 1000000 (truncInt q)) | _ \<Rightarrow> 1)) \<and>
   1 \<le> queryLimit h body view \<and> queryLimit h body view \<le> 500 \<and>
   1 \<le> queryPage h body \<and> queryPage h body \<le> 1000000"
proof -
  have a: "\<not> nullish (req_limit body) \<longrightarrow>
      queryLimit h body view =
        (case toNumber h (req_limit body) of
           Fin q \<Rightarrow> max 1 (min 500 (truncInt q)) | _ \<Rightarrow> 20)"
    by (simp add: queryLimit_def coalesce_def clampInt_def)
  have b: "nullish (req_limit body) \<longrightarrow>
      queryLimit h body view =
        (case view of
           None \<Rightarrow> 20
         | Some v \<Rightarrow>
             (case view_limit v of
                Some (Fin q) \<Rightarrow> max 1 (min 500 (truncInt q)) | _ \<Rightarrow> 20))"
    by (simp add: queryLimit_def coalesce_def clampInt_def viewLimitValue_def nullish_def
          toNumber_def truncInt_def
        split: option.splits jsnum.splits)
  have c: "queryPage h body =
     (if nullish (req_page body) then 1
      else (case toNumber h (req_page body) of
              Fin q \<Rightarrow> max 1 (min 1000000 (truncInt q)) | _ \<Rightarrow> 1))"
    by (simp add: queryPage_def coalesce_def clampInt_def toNumber_def truncInt_def)
  have d: "1 \<le> queryLimit h body view \<and> queryLimit h body view \<le> 500"
    unfolding queryLimit_def by (rule clampInt_range) simp_all
  have e: "1 \<le> queryPage h body \<and> queryPage h body \<le> 1000000"
    unfolding queryPage_def by (rule clampInt_range) simp_all
  from a b c d e show ?thesis by blast
qed

theorem queryLimit_queryPage_effective_witness:
  "\<not> nullish (req_limit fractionalLimitRequest) \<and>
   queryLimit sampleHost fractionalLimitRequest None = 2 \<and>
   queryPage sampleHost fractionalLimitRequest = 7"
proof -
  have l: "toNumber sampleHost (req_limit fractionalLimitRequest) = Fin (27 / 10)"
    by (simp add: fractionalLimitRequest_def toNumber_def)
  have p: "toNumber sampleHost (req_page fractionalLimitRequest) = Fin 7"
    by (simp add: fractionalLimitRequest_def toNumber_def numberSimps)
  have n: "\<not> nullish (req_limit fractionalLimitRequest)" "\<not> nullish (req_page fractionalLimitRequest)"
    by (simp_all add: fractionalLimitRequest_def nullish_def)
  have t7: "truncInt 7 = 7" by (simp add: truncInt_def)
  show ?thesis
    using queryLimit_queryPage_effective [of fractionalLimitRequest sampleHost None] n
    by (simp add: l p truncInt_27_10 t7)
qed

section \<open>The warnings of a query response\<close>













section \<open>Batch upserts\<close>

lemma upsertLoop_acc:
  "upsertLoop h w c vlt ops rs = (fst (upsertLoop h w c vlt ops []), rs @ snd (upsertLoop h w c vlt ops []))"
proof (induction ops arbitrary: vlt rs)
  case Nil
  then show ?case by simp
next
  case (Cons op ops)
  obtain v r where one: "upsertOne h w vlt op = (v, r)" by (cases "upsertOne h w vlt op")
  show ?case
  proof (cases "hasError r \<and> \<not> c")
    case True
    then show ?thesis by (simp add: one)
  next
    case False
    have "upsertLoop h w c vlt (op # ops) rs = upsertLoop h w c v ops (rs @ [r])"
      using False by (auto simp: one)
    also have "\<dots> = (fst (upsertLoop h w c v ops []), (rs @ [r]) @ snd (upsertLoop h w c v ops []))"
      by (rule Cons.IH)
    finally have a: "upsertLoop h w c vlt (op # ops) rs = (fst (upsertLoop h w c v ops []), rs @ r # snd (upsertLoop h w c v ops []))"
      by simp
    have "upsertLoop h w c vlt (op # ops) [] = upsertLoop h w c v ops [r]"
      using False by (auto simp: one)
    also have "\<dots> = (fst (upsertLoop h w c v ops []), [r] @ snd (upsertLoop h w c v ops []))"
      by (rule Cons.IH)
    finally have b: "upsertLoop h w c vlt (op # ops) [] = (fst (upsertLoop h w c v ops []), r # snd (upsertLoop h w c v ops []))"
      by simp
    show ?thesis unfolding a b by simp
  qed
qed

lemma upsertLoop_prefix_ok:
  assumes "upsertLoop h w False vlt pre [] = (vlt1, rs1)"
      and "list_all (\<lambda>r. \<not> hasError r) rs1"
  shows "upsertLoop h w False vlt (pre @ rest) [] =
           (fst (upsertLoop h w False vlt1 rest []), rs1 @ snd (upsertLoop h w False vlt1 rest []))
         \<and> length rs1 = length pre"
  using assms
proof (induction pre arbitrary: vlt rs1)
  case Nil
  then show ?case by simp
next
  case (Cons op pre)
  obtain v r where one: "upsertOne h w vlt op = (v, r)" by (cases "upsertOne h w vlt op")
  show ?case
  proof (cases "hasError r")
    case True
    then have "rs1 = [r]" using Cons.prems(1) by (simp add: one)
    with True Cons.prems(2) show ?thesis by simp
  next
    case False
    have step: "upsertLoop h w False vlt (op # pre) [] = (fst (upsertLoop h w False v pre []), r # snd (upsertLoop h w False v pre []))"
      using False upsertLoop_acc [of h w False v pre "[r]"] by (simp add: one)
    then have v1: "vlt1 = fst (upsertLoop h w False v pre [])" and r1: "rs1 = r # snd (upsertLoop h w False v pre [])"
      using Cons.prems(1) by simp_all
    have pre_eq: "upsertLoop h w False v pre [] = (vlt1, snd (upsertLoop h w False v pre []))"
      by (simp add: v1)
    have ok': "list_all (\<lambda>r. \<not> hasError r) (snd (upsertLoop h w False v pre []))"
      using Cons.prems(2) r1 by simp
    have ih: "upsertLoop h w False v (pre @ rest) [] =
           (fst (upsertLoop h w False vlt1 rest []), snd (upsertLoop h w False v pre []) @ snd (upsertLoop h w False vlt1 rest []))
         \<and> length (snd (upsertLoop h w False v pre [])) = length pre"
      using Cons.IH [OF pre_eq ok'] .
    have "upsertLoop h w False vlt ((op # pre) @ rest) [] = upsertLoop h w False v (pre @ rest) [r]"
      using False by (simp add: one)
    also have "\<dots> = (fst (upsertLoop h w False v (pre @ rest) []), [r] @ snd (upsertLoop h w False v (pre @ rest) []))"
      by (rule upsertLoop_acc)
    finally show ?thesis using ih r1 by simp
  qed
qed

lemma upsertOne_conflict:
  assumes "normBaseId h (jsString h (coalesce (op_file op) (VStr []))) = filePath"
      and "filePath \<noteq> []" "vlt filePath = Some (File f)"
      and "op_expected_mtime op = VNum e" "numTruthy e" "\<not> numEq (stat_mtime f) e"
  shows "upsertOne h w vlt op =
           (vlt, \<lparr> res_file = filePath, res_mtime = stat_mtime f, res_changed = None,
                   res_error = Some (''mtime_conflict'', conflictMessage h (Some e) (stat_mtime f)) \<rparr>)"
  using assms by (simp add: upsertOne_def Let_def)

lemmas upsertSimps =
  normBaseId_def coalesce_def nullish_def sampleHost_def sampleVault_def sampleNote_def
  sampleWriter_def sampleOp_def upsertOne_def Let_def numTruthy_def numEq_def errorCode_def
  upsertBase_def jsTruthy_def hasError_def

text \<open>
  Claim C4, as stated: with \<^verbatim>\<open>continueOnError=false\<close>, an operation whose
  \<^verbatim>\<open>expected_mtime\<close> differs from the note's modification time gets a result with
  \<^verbatim>\<open>mtime_conflict\<close>. It fails when an earlier operation of the batch has failed: the
  loop has stopped, and the stale operation gets no result at all. Here the first
  operation names a missing note and the second carries the stale time 1 for a note
  modified at 5.
\<close>

theorem stale_mtime_after_failure_counterexample:
  "map errorCode (resp_results (snd (upsertBase sampleHost sampleWriter sampleVault
      [sampleOp ''missing.md'' VUndef, sampleOp ''A.md'' (VNum (Fin 1))] (VBool False))))
   = [Some ''not_found'']"
  by (simp add: upsertSimps)

text \<open>
  Claim C4, amended. With \<^verbatim>\<open>continueOnError\<close> falsy: when every operation before it
  has succeeded, and the operation names an existing note and carries a number other
  than 0 and \<^verbatim>\<open>NaN\<close> as \<^verbatim>\<open>expected_mtime\<close> that differs from the note's modification time
  at that moment, then its result carries \<^verbatim>\<open>mtime_conflict\<close>, it is the last result of
  the response, the response is not ok, and no later operation is executed: the vault
  is the one the earlier operations left.
\<close>

theorem stale_mtime_conflict_stops_batch:
  assumes "upsertLoop h w False vlt pre [] = (vlt1, rs1)"
      and "list_all (\<lambda>r. \<not> hasError r) rs1"
      and "normBaseId h (jsString h (coalesce (op_file op) (VStr []))) = filePath"
      and "filePath \<noteq> []" "vlt1 filePath = Some (File f)"
      and "op_expected_mtime op = VNum e" "numTruthy e" "\<not> numEq (stat_mtime f) e"
      and "\<not> jsTruthy continueOnError"
  shows "\<exists>r. upsertBase h w vlt (pre @ op # post) continueOnError =
               (vlt1, \<lparr> resp_ok = False, resp_results = rs1 @ [r] \<rparr>) \<and>
             errorCode r = Some ''mtime_conflict'' \<and> res_file r = filePath \<and>
             length (rs1 @ [r]) = length pre + 1"
proof -
  let ?r = "\<lparr> res_file = filePath, res_mtime = stat_mtime f, res_changed = None,
                   res_error = Some (''mtime_conflict'', conflictMessage h (Some e) (stat_mtime f)) \<rparr>"
  have one: "upsertOne h w vlt1 op = (vlt1, ?r)"
    using assms(3-8) by (rule upsertOne_conflict)
  have rest: "upsertLoop h w False vlt1 (op # post) [] = (vlt1, [?r])"
    by (simp add: one hasError_def)
  have "upsertLoop h w False vlt (pre @ op # post) [] = (vlt1, rs1 @ [?r]) \<and> length rs1 = length pre"
    using upsertLoop_prefix_ok [OF assms(1,2), of "op # post"] unfolding rest by simp
  then show ?thesis
    using assms(9) by (simp add: upsertBase_def errorCode_def hasError_def)
qed

theorem stale_mtime_conflict_stops_batch_witness:
  "map errorCode (resp_results (snd (upsertBase sampleHost sampleWriter sampleVault
      [sampleOp ''A.md'' (VNum (Fin 5)), sampleOp ''A.md'' (VNum (Fin 5)), sampleOp ''A.md'' VUndef]
      (VBool False))))
   = [None, Some ''mtime_conflict'']"
proof -
  let ?w = "sampleNote\<lparr> stat_mtime := Fin 6,
              cache_frontmatter := VObj [(''priority'', VNum (Fin 0)), (''status'', VStr ''done'')] \<rparr>"
  let ?r1 = "\<lparr> res_file = ''A.md'', res_mtime = Fin 6,
               res_changed = Some ([''status''], None), res_error = None \<rparr>"
  have pre: "upsertLoop sampleHost sampleWriter False sampleVault [sampleOp ''A.md'' (VNum (Fin 5))] []
               = (sampleVault(''A.md'' \<mapsto> File ?w), [?r1])"
    by (simp add: upsertSimps mutateFrontMatter_def objSet_def)
  have ex: "\<exists>r. upsertBase sampleHost sampleWriter sampleVault
               ([sampleOp ''A.md'' (VNum (Fin 5))] @ sampleOp ''A.md'' (VNum (Fin 5)) # [sampleOp ''A.md'' VUndef])
               (VBool False)
             = (sampleVault(''A.md'' \<mapsto> File ?w), \<lparr> resp_ok = False, resp_results = [?r1] @ [r] \<rparr>) \<and>
             errorCode r = Some ''mtime_conflict'' \<and> res_file r = ''A.md'' \<and>
             length ([?r1] @ [r]) = length [sampleOp ''A.md'' (VNum (Fin 5))] + 1"
    by (rule stale_mtime_conflict_stops_batch [OF pre, where f = "?w" and e = "Fin 5"])
       (simp_all add: upsertSimps)
  then show ?thesis by (auto simp: errorCode_def)
qed

text \<open>
  Claim C9. An operation whose \<^verbatim>\<open>expected_mtime\<close> is the number 0 is handled exactly as
  one without \<^verbatim>\<open>expected_mtime\<close>: its result never carries \<^verbatim>\<open>mtime_conflict\<close>, and when
  the note exists the write is made whatever the note's modification time is (the
  result is the writer's).
\<close>

theorem expected_mtime_zero_bypasses_guard:
  "upsertOne h w vlt (op\<lparr>op_expected_mtime := VNum (Fin 0)\<rparr>)
     = upsertOne h w vlt (op\<lparr>op_expected_mtime := VUndef\<rparr>) \<and>
   errorCode (snd (upsertOne h w vlt (op\<lparr>op_expected_mtime := VNum (Fin 0)\<rparr>))) \<noteq> Some ''mtime_conflict'' \<and>
   (\<forall>filePath f written.
      normBaseId h (jsString h (coalesce (op_file op) (VStr []))) = filePath \<and> filePath \<noteq> [] \<and>
      vlt filePath = Some (File f) \<and>
      w f (mutateFrontMatter (case op_set op of VObj kvs \<Rightarrow> kvs | _ \<Rightarrow> [])
                             (case op_unset op of VArr ks \<Rightarrow> stringsOf ks | _ \<Rightarrow> [])) = Inr written
      \<longrightarrow> fst (upsertOne h w vlt (op\<lparr>op_expected_mtime := VNum (Fin 0)\<rparr>)) = vlt(filePath \<mapsto> File written) \<and>
          res_error (snd (upsertOne h w vlt (op\<lparr>op_expected_mtime := VNum (Fin 0)\<rparr>))) = None \<and>
          res_mtime (snd (upsertOne h w vlt (op\<lparr>op_expected_mtime := VNum (Fin 0)\<rparr>))) = stat_mtime written)"
  by (auto simp: upsertOne_def Let_def numTruthy_def errorCode_def split: option.splits abstractFile.splits sum.splits)

theorem expected_mtime_zero_bypasses_guard_witness:
  "stat_mtime sampleNote \<noteq> Fin 0 \<and>
   errorCode (snd (upsertOne sampleHost sampleWriter sampleVault (sampleOp ''A.md'' (VNum (Fin 0))))) = None \<and>
   res_mtime (snd (upsertOne sampleHost sampleWriter sampleVault (sampleOp ''A.md'' (VNum (Fin 0))))) = Fin 6"
  using expected_mtime_zero_bypasses_guard [of sampleHost sampleWriter sampleVault "sampleOp ''A.md'' VUndef"]
  by (simp add: upsertSimps)

section \<open>Formula evaluator\<close>

lemmas strSimps = trim_def isSpace_def startsWith_def endsWith_def stripQuotes_def jsSlice_def Let_def
  splitOutsideQuotes_def splitTopLevelCommas_def isLineTerminator_def isQuoted_def quote_def

lemmas rxSimps = rxMatch_def rxTest_def dot_def dotAll_def notCloseParen_def isRefChar_def isLetter_def
  isNumberChar_def isDigit_def numberRx_def identRx_def joinListRx_def listRx_def ifRx_def callRx_def
  listContainsRx_def listPropContainsLinkRx_def propContainsLinkRx_def fileFieldOpRx_def opRx_def
  boolRx_def trueRx_def numberRx2_def lowerAscii_def cap1_def cap2_def cap3_def

lemmas formSimps = evaluateAtom_def hasTagForm_def inFolderForm_def hasLinkForm_def listContainsForm_def
  pathStartsWithForm_def pathContainsForm_def folderStartsWithForm_def folderContainsForm_def
  containsLinkForm_def fileFieldOpForm_def comparisonForm_def bareIdentifierForm_def pass_def
  rightValue_def compareValues_def negated_def unknownShape_def

lemmas noteSimps = noteWith_def getFrontmatter_def objGet_def condOk_def isFinite_def

text \<open>
  Claim C1, as stated: on a note with \<^verbatim>\<open>priority: 0\<close> the formula
  \<^verbatim>\<open>if(priority, 'has-priority', 'none')\<close> gives \<^verbatim>\<open>"none"\<close>. The code's truthiness test
  accepts every finite number, 0 included, so the condition holds and the else-branch
  is not taken: the result is not \<^verbatim>\<open>"none"\<close> (it is \<^verbatim>\<open>undefined\<close>, at call depth 3 and at
  every greater depth).
\<close>

theorem if_priority_zero_counterexample:
  "evalFormulaExpression 3 sampleHost (noteWith [(''priority'', VNum (Fin 0))]) ifPriorityFormula None
     \<noteq> Inr (VStr ''none'')"
  by (simp add: numeral_3_eq_3 ifPriorityFormula_def strSimps rxSimps noteSimps)

lemma ifPriority_parse:
  "evalFormulaExpression (Suc (Suc n)) h file ifPriorityFormula schema =
     (if condOk (objGet (getFrontmatter file) ''priority'')
      then getValueForRef (Suc n) h file (quote ''has-priority'') schema
      else Inr (VStr ''none''))"
  by (simp add: ifPriorityFormula_def strSimps rxSimps)

text \<open>
  Claim C1, amended. The number 0 is truthy under the code's rule (it is a finite
  number). On every note whose \<^verbatim>\<open>priority\<close> is not truthy under that rule (absent, \<^verbatim>\<open>null\<close>,
  \<^verbatim>\<open>false\<close>, a blank string, \<^verbatim>\<open>NaN\<close> or an infinity, an empty array or object), the formula
  \<^verbatim>\<open>if(priority, 'has-priority', 'none')\<close> returns the string \<^verbatim>\<open>"none"\<close>, at every call
  depth of at least 2.
\<close>

theorem if_priority_else_branch_when_not_truthy:
  "condOk (VNum (Fin 0)) \<and>
   (\<not> condOk (objGet (getFrontmatter file) ''priority'') \<longrightarrow>
      evalFormulaExpression (Suc (Suc n)) h file ifPriorityFormula schema = Inr (VStr ''none''))"
  unfolding ifPriority_parse by (simp add: condOk_def isFinite_def)

theorem if_priority_else_branch_when_not_truthy_witness:
  "\<not> condOk (objGet (getFrontmatter (noteWith [(''priority'', VNull)])) ''priority'') \<and>
   evalFormulaExpression 2 sampleHost (noteWith [(''priority'', VNull)]) ifPriorityFormula None
     = Inr (VStr ''none'')"
  using if_priority_else_branch_when_not_truthy [of "noteWith [(''priority'', VNull)]" 0 sampleHost None]
  by (simp add: numeral_2_eq_2 noteSimps)

text \<open>
  Claim C8 says that a truthy condition makes \<^verbatim>\<open>if(c, t, e)\<close> evaluate \<open>t\<close> as a nested
  expression, so that a quoted then-branch yields its string. The code hands the
  then-branch to \<^verbatim>\<open>getValueForRef\<close>, while the else-branch goes to
  \<^verbatim>\<open>evalFormulaExpression\<close>: on a note with \<^verbatim>\<open>flag: true\<close> the formula
  \<^verbatim>\<open>if(flag, 'yes', 'no')\<close> looks up the frontmatter key \<^verbatim>\<open>'yes'\<close> (quotes included) and
  gives \<^verbatim>\<open>undefined\<close>, whereas with \<^verbatim>\<open>flag: false\<close> it gives the string \<^verbatim>\<open>"no"\<close>.
\<close>

theorem if_then_branch_resolved_as_reference:
  "evalFormulaExpression 3 sampleHost (noteWith [(''flag'', VBool True)]) ifFlagFormula None = Inr VUndef \<and>
   evalFormulaExpression 3 sampleHost (noteWith [(''flag'', VBool False)]) ifFlagFormula None = Inr (VStr ''no'')"
  by (simp add: numeral_3_eq_3 ifFlagFormula_def strSimps rxSimps noteSimps)

section \<open>Filter evaluator\<close>

text \<open>
  Claim C3, as stated: a statement that matches none of the forms passes with the one
  warning \<^verbatim>\<open>Filter non reconnu: <text>\<close>. A blank statement matches none of the forms,
  and the code returns for it before any form is tried: it passes with no warning.
\<close>

theorem blank_statement_counterexample:
  "evaluateStatement 1 sampleHost (noteWith []) ''  '' None = Inr \<lparr> ok = True, warnings = [] \<rparr>"
  by (simp add: strSimps)

text \<open>
  Claim C3, amended. For every note and every statement that is not blank and whose
  trimmed text matches none of the forms, \<^verbatim>\<open>evaluateStatement\<close> returns (it does not
  raise, at any call depth of at least 1) \<^verbatim>\<open>ok: true\<close> with the single warning
  \<^verbatim>\<open>Filter non reconnu: \<close> followed by the trimmed text.
\<close>

theorem unrecognized_statement_passes_with_warning:
  assumes "trim statement \<noteq> []" "unrecognized (trim statement)"
  shows "evaluateStatement (Suc n) h file statement schema =
           Inr \<lparr> ok = True, warnings = [''Filter non reconnu: '' @ trim statement] \<rparr>"
proof -
  have atom: "evaluateAtom n h file (trim statement) schema =
           Inr \<lparr> ok = True, warnings = [''Filter non reconnu: '' @ trim statement] \<rparr>"
    using assms(2) unfolding unrecognized_def evaluateAtom_def
    by (simp add: hasTagForm_def inFolderForm_def hasLinkForm_def listContainsForm_def
        pathStartsWithForm_def pathContainsForm_def folderStartsWithForm_def folderContainsForm_def
        containsLinkForm_def fileFieldOpForm_def comparisonForm_def bareIdentifierForm_def
        cap1_def cap2_def cap3_def)
  have splits: "\<not> 1 < length (splitOutsideQuotes (trim statement) '' or '')"
               "\<not> 1 < length (splitOutsideQuotes (trim statement) ''||'')"
               "\<not> 1 < length (splitOutsideQuotes (trim statement) '' and '')"
               "\<not> 1 < length (splitOutsideQuotes (trim statement) ''&&'')"
               "\<not> startsWith (trim statement) ''not ''"
               "\<not> startsWith (trim statement) ''!''"
    using assms(2) unfolding unrecognized_def by simp_all
  show ?thesis
    using assms(1) splits atom by (simp add: Let_def)
qed

lemma unrecognized_foo_bar: "unrecognized ''foo(bar)''"
  unfolding unrecognized_def by (simp add: strSimps rxSimps)

theorem unrecognized_statement_passes_with_warning_witness:
  "trim '' foo(bar) '' \<noteq> [] \<and> unrecognized (trim '' foo(bar) '') \<and>
   evaluateStatement 1 sampleHost (noteWith []) '' foo(bar) '' None =
     Inr \<lparr> ok = True, warnings = [''Filter non reconnu: foo(bar)''] \<rparr>"
proof -
  have t: "trim '' foo(bar) '' = ''foo(bar)''" by (simp add: trim_def isSpace_def)
  show ?thesis
    using unrecognized_statement_passes_with_warning [of "'' foo(bar) ''" 0 sampleHost "noteWith []" None]
      unrecognized_foo_bar
    by (simp add: t)
qed

lemma compare_x_5:
  assumes "getValueForRef (Suc n) h file ''x'' schema = Inr (VNum (Fin q))"
  shows "evaluateStatement (Suc (Suc n)) h file ''x > 5'' schema = Inr \<lparr> ok = (5 < q), warnings = [] \<rparr>"
        "evaluateStatement (Suc (Suc n)) h file ''x <= 5'' schema = Inr \<lparr> ok = (q \<le> 5), warnings = [] \<rparr>"
        "evaluateStatement (Suc (Suc n)) h file ''x < 5'' schema = Inr \<lparr> ok = (q < 5), warnings = [] \<rparr>"
        "evaluateStatement (Suc (Suc n)) h file ''x >= 5'' schema = Inr \<lparr> ok = (5 \<le> q), warnings = [] \<rparr>"
proof -
  have x: "objGet (getFrontmatter file) ''x'' = VNum (Fin q)"
    using assms by (simp add: strSimps)
  show "evaluateStatement (Suc (Suc n)) h file ''x > 5'' schema = Inr \<lparr> ok = (5 < q), warnings = [] \<rparr>"
    by (simp add: strSimps rxSimps formSimps x numberSimps isFinite_def)
  show "evaluateStatement (Suc (Suc n)) h file ''x <= 5'' schema = Inr \<lparr> ok = (q \<le> 5), warnings = [] \<rparr>"
    by (auto simp: strSimps rxSimps formSimps x numberSimps isFinite_def numLessEq_def numEq_def)
  show "evaluateStatement (Suc (Suc n)) h file ''x < 5'' schema = Inr \<lparr> ok = (q < 5), warnings = [] \<rparr>"
    by (simp add: strSimps rxSimps formSimps x numberSimps isFinite_def)
  show "evaluateStatement (Suc (Suc n)) h file ''x >= 5'' schema = Inr \<lparr> ok = (5 \<le> q), warnings = [] \<rparr>"
    by (auto simp: strSimps rxSimps formSimps x numberSimps isFinite_def numLessEq_def numEq_def)
qed

text \<open>
  Claim C6. On every note where the reference \<open>x\<close> resolves to a finite number \<open>q\<close>, the
  statements \<^verbatim>\<open>x > 5\<close> and \<^verbatim>\<open>x <= 5\<close> both return, with opposite \<open>ok\<close>, and so do \<^verbatim>\<open>x < 5\<close>
  and \<^verbatim>\<open>x >= 5\<close>; the comparisons are those of the numbers \<open>q\<close> and 5. This holds at
  every call depth of at least 2.
\<close>

theorem numeric_comparison_negation:
  assumes "getValueForRef (Suc n) h file ''x'' schema = Inr (VNum (Fin q))"
  shows "\<exists>gt le lt ge.
           evaluateStatement (Suc (Suc n)) h file ''x > 5'' schema = Inr gt \<and>
           evaluateStatement (Suc (Suc n)) h file ''x <= 5'' schema = Inr le \<and>
           evaluateStatement (Suc (Suc n)) h file ''x < 5'' schema = Inr lt \<and>
           evaluateStatement (Suc (Suc n)) h file ''x >= 5'' schema = Inr ge \<and>
           ok gt = (\<not> ok le) \<and> ok lt = (\<not> ok ge) \<and>
           ok gt = (5 < q) \<and> ok lt = (q < 5)"
  using compare_x_5 [OF assms] by auto

theorem numeric_comparison_negation_witness:
  "getValueForRef (Suc 0) sampleHost (noteWith [(''x'', VNum (Fin 7))]) ''x'' None = Inr (VNum (Fin 7)) \<and>
   (\<exists>gt le.
      evaluateStatement (Suc (Suc 0)) sampleHost (noteWith [(''x'', VNum (Fin 7))]) ''x > 5'' None = Inr gt \<and>
      evaluateStatement (Suc (Suc 0)) sampleHost (noteWith [(''x'', VNum (Fin 7))]) ''x <= 5'' None = Inr le \<and>
      ok gt \<and> \<not> ok le)"
proof -
  have g: "getValueForRef (Suc 0) sampleHost (noteWith [(''x'', VNum (Fin 7))]) ''x'' None = Inr (VNum (Fin 7))"
    by (simp add: strSimps noteSimps)
  from numeric_comparison_negation [OF g] obtain gt le where a:
    "evaluateStatement (Suc (Suc 0)) sampleHost (noteWith [(''x'', VNum (Fin 7))]) ''x > 5'' None = Inr gt"
    "evaluateStatement (Suc (Suc 0)) sampleHost (noteWith [(''x'', VNum (Fin 7))]) ''x <= 5'' None = Inr le"
    "ok gt = (\<not> ok le)" "ok gt = (5 < (7::rat))"
    by blast
  have "ok gt" using a(4) by simp
  with a(3) have "\<not> ok le" by simp
  with \<open>ok gt\<close> g a(1,2) show ?thesis by blast
qed

lemma orLoop_all:
  "orLoop any ws (map Inr rs) = Inr \<lparr> ok = (any \<or> (\<exists>r\<in>set rs. ok r)), warnings = ws @ concat (map warnings rs) \<rparr>"
  by (induction rs arbitrary: any ws) auto

text \<open>
  Claim C2, as stated: \<^verbatim>\<open>{or: [...]}\<close> stops at the first child that succeeds, so the
  warnings of later children are absent. The \<^verbatim>\<open>or\<close> loop has no early exit: here the
  first child \<^verbatim>\<open>flag\<close> succeeds and the warning of the second child is in the result.
\<close>

theorem or_filter_counterexample:
  "evaluateFilter 4 sampleHost (noteWith [(''flag'', VBool True)]) orFilter None =
     Inr \<lparr> ok = True, warnings = [''Filter non reconnu: foo(bar)''] \<rparr>"
  by (simp add: eval_nat_numeral orFilter_def jsTruthy_def strSimps rxSimps formSimps noteSimps)

text \<open>
  Claim C2, amended. For every note and every filter object whose \<^verbatim>\<open>and\<close> is not an
  array and whose \<^verbatim>\<open>or\<close> is the array \<open>[F1, ..., Fn]\<close>: \<^verbatim>\<open>evaluateFilter\<close> evaluates every
  child; when all of them return, the result is ok exactly when some child is ok, and
  its warnings are the warnings of all the children, in order.
\<close>

theorem or_filter_aggregates_all_children:
  assumes "\<forall>ps. objGet kvs ''and'' \<noteq> VArr ps"
      and "objGet kvs ''or'' = VArr parts"
      and "map (\<lambda>part. evaluateFilter n h file part schema) parts = map Inr rs"
  shows "evaluateFilter (Suc n) h file (VObj kvs) schema =
           Inr \<lparr> ok = (\<exists>r\<in>set rs. ok r), warnings = concat (map warnings rs) \<rparr>"
proof -
  have "evaluateFilter (Suc n) h file (VObj kvs) schema =
          orLoop False [] (map (\<lambda>part. evaluateFilter n h file part schema) parts)"
    using assms(1,2) by (simp add: jsTruthy_def split: jsval.splits)
  then show ?thesis by (simp add: assms(3) orLoop_all)
qed

theorem or_filter_aggregates_all_children_witness:
  "evaluateFilter 4 sampleHost (noteWith [(''flag'', VBool True)]) orFilter None =
     Inr \<lparr> ok = True, warnings = [''Filter non reconnu: foo(bar)''] \<rparr>"
proof -
  let ?f = "noteWith [(''flag'', VBool True)]"
  let ?rs = "[\<lparr> ok = True, warnings = [] \<rparr>, \<lparr> ok = True, warnings = [''Filter non reconnu: foo(bar)''] \<rparr>]"
  have kids: "map (\<lambda>part. evaluateFilter (Suc (Suc (Suc 0))) sampleHost ?f part None) [VStr ''flag'', VStr ''foo(bar)'']
                = map Inr ?rs"
    by (simp add: jsTruthy_def strSimps rxSimps formSimps noteSimps)
  have "evaluateFilter (Suc (Suc (Suc (Suc 0)))) sampleHost ?f (VObj [(''or'', VArr [VStr ''flag'', VStr ''foo(bar)''])]) None =
           Inr \<lparr> ok = (\<exists>r\<in>set ?rs. ok r), warnings = concat (map warnings ?rs) \<rparr>"
    by (rule or_filter_aggregates_all_children [OF _ _ kids]) (simp_all add: objGet_def)
  then show ?thesis by (simp add: eval_nat_numeral orFilter_def)
qed


section \<open>The warnings of a query response, from the scan of the vault\<close>



lemma pass_clean: "pass b = Some (Inr r) \<Longrightarrow> warnings r = []"
  by (auto simp: pass_def)
















end
